theory Spec2Isabelle
  imports Complex_Main "HOL-Library.AList"
begin

section \<open>JavaScript values\<close>

text \<open>
  The adapter moves plain JSON-like objects around.  Numbers are the finite values
  (as rationals) and \<open>NaN\<close>; strings are byte lists (UTF-8); an object is an association
  list in insertion order with distinct keys.  \<open>Template p s\<close> is the arrow function
  \<^verbatim>\<open>(id) => `p${id}s`\<close>, the only kind of function the endpoint tables hold.
\<close>

datatype jsval =
    Undefined
  | Null
  | Bool bool
  | Num rat
  | NaN
  | Str string
  | Arr "jsval list"
  | Obj "(string \<times> jsval) list"
  | Template string string

record http_response =
  resp_status :: jsval
  resp_data :: jsval

record request =
  req_method :: string
  req_url :: jsval
  req_data :: jsval
  req_headers :: jsval

text \<open>
  What a \<^verbatim>\<open>throw\<close> carries.  \<open>AxiosError\<close> is the rejection of the HTTP library: a
  message, the response when the server answered, and the request configuration.
\<close>

datatype js_error =
    Error string
  | TypeError string
  | AxiosError string "http_response option" request

fun err_message :: "js_error \<Rightarrow> string" where
  "err_message (Error m) = m"
| "err_message (TypeError m) = m"
| "err_message (AxiosError m r c) = m"

fun err_response :: "js_error \<Rightarrow> http_response option" where
  "err_response (AxiosError m r c) = r"
| "err_response e = None"

fun err_config :: "js_error \<Rightarrow> request option" where
  "err_config (AxiosError m r c) = Some c"
| "err_config e = None"

text \<open>What the HTTP library reports for one request, before the interceptors run.\<close>

datatype http_result =
    HttpOk jsval
  | HttpErr string "http_response option"

text \<open>
  The runtime the code runs in: the server behind the HTTP library, the
  \<^verbatim>\<open>NODE_ENV === 'development'\<close> flag, and what stays abstract: the platform's
  number-to-string conversion, the query string of a \<^verbatim>\<open>URLSearchParams\<close> whose
  initialiser is not a plain object, \<^verbatim>\<open>parseInt\<close> and \<^verbatim>\<open>parseFloat\<close> on arbitrary
  text, the clock (\<^verbatim>\<open>new Date().toISOString()\<close>), and \<open>view\<close>: how a successful payload
  is laid out as display text (dates in the host's locale, progress bars), which may
  throw on a payload of the wrong shape.
\<close>

record runtime =
  transport :: "request \<Rightarrow> http_result"
  development :: bool
  number_to_string :: "rat \<Rightarrow> string"
  query_of :: "jsval \<Rightarrow> js_error + string"
  parseInt :: "string \<Rightarrow> jsval"
  parseFloat :: "string \<Rightarrow> jsval"
  now_iso :: string
  view :: "string \<Rightarrow> jsval list \<Rightarrow> js_error + string"

fun truthy :: "jsval \<Rightarrow> bool" where
  "truthy Undefined = False"
| "truthy Null = False"
| "truthy (Bool b) = b"
| "truthy (Num r) = (r \<noteq> 0)"
| "truthy NaN = False"
| "truthy (Str s) = (s \<noteq> [])"
| "truthy (Arr xs) = True"
| "truthy (Obj kvs) = True"
| "truthy (Template p s) = True"

text \<open>\<^verbatim>\<open>a || b\<close>\<close>

definition js_or :: "jsval \<Rightarrow> jsval \<Rightarrow> jsval" where
  "js_or a b = (if truthy a then a else b)"

fun intercalate :: "string \<Rightarrow> string list \<Rightarrow> string" where
  "intercalate sep [] = []"
| "intercalate sep [x] = x"
| "intercalate sep (x # y # ys) = x @ sep @ intercalate sep (y # ys)"

text \<open>
  String conversion, as a template literal or \<^verbatim>\<open>URLSearchParams\<close> performs it.  Inside
  an array \<^verbatim>\<open>null\<close> and \<^verbatim>\<open>undefined\<close> print as the empty string.
\<close>

primrec to_string :: "runtime \<Rightarrow> jsval \<Rightarrow> string" where
  "to_string rt Undefined = ''undefined''"
| "to_string rt Null = ''null''"
| "to_string rt (Bool b) = (if b then ''true'' else ''false'')"
| "to_string rt (Num r) = number_to_string rt r"
| "to_string rt NaN = ''NaN''"
| "to_string rt (Str s) = s"
| "to_string rt (Arr xs) =
     intercalate '','' (map (\<lambda>(x, s). if x = Undefined \<or> x = Null then [] else s)
                          (zip xs (map (to_string rt) xs)))"
| "to_string rt (Obj kvs) = ''[object Object]''"
| "to_string rt (Template p s) = ''(id) => `'' @ p @ ''${id}'' @ s @ ''`''"

text \<open>
  \<^verbatim>\<open>v.k\<close>: reading a property of \<^verbatim>\<open>undefined\<close> or \<^verbatim>\<open>null\<close> throws; on an object it
  is the stored value or \<^verbatim>\<open>undefined\<close>.  None of the property names the code reads is
  a built-in property of a string, a number, an array or a function.
\<close>

definition lookup :: "jsval \<Rightarrow> string \<Rightarrow> jsval" where
  "lookup v k = (case v of
       Obj kvs \<Rightarrow> (case map_of kvs k of Some x \<Rightarrow> x | None \<Rightarrow> Undefined)
     | _ \<Rightarrow> Undefined)"

definition get_prop :: "jsval \<Rightarrow> string \<Rightarrow> js_error + jsval" where
  "get_prop v k =
     (if v = Undefined \<or> v = Null
      then Inl (TypeError (''Cannot read properties of '' @ (if v = Null then ''null'' else ''undefined'')
                           @ '' (reading '' @ [CHR 0x27] @ k @ [CHR 0x27] @ '')''))
      else Inr (lookup v k))"

text \<open>\<^verbatim>\<open>f(arg)\<close> for a value \<open>f\<close> read from \<open>what\<close>.\<close>

definition call :: "runtime \<Rightarrow> string \<Rightarrow> jsval \<Rightarrow> jsval \<Rightarrow> js_error + jsval" where
  "call rt what f arg = (case f of
       Template p s \<Rightarrow> Inr (Str (p @ to_string rt arg @ s))
     | _ \<Rightarrow> Inl (TypeError (what @ '' is not a function'')))"

section \<open>Backend profiles\<close>

definition b64_alphabet :: string where
  "b64_alphabet = ''ABCDEFGHIJKLMNOPQRSTUVWXYZabcdefghijklmnopqrstuvwxyz0123456789+/''"

fun base64 :: "nat list \<Rightarrow> string" where
  "base64 (a # b # c # rest) =
     (let n = a * 65536 + b * 256 + c
      in [b64_alphabet ! (n div 262144), b64_alphabet ! (n div 4096 mod 64),
          b64_alphabet ! (n div 64 mod 64), b64_alphabet ! (n mod 64)] @ base64 rest)"
| "base64 [a, b] =
     (let n = a * 65536 + b * 256
      in [b64_alphabet ! (n div 262144), b64_alphabet ! (n div 4096 mod 64),
          b64_alphabet ! (n div 64 mod 64), CHR ''=''])"
| "base64 [a] =
     (let n = a * 65536
      in [b64_alphabet ! (n div 262144), b64_alphabet ! (n div 4096 mod 64), CHR ''='', CHR ''=''])"
| "base64 [] = []"

text \<open>\<^verbatim>\<open>Buffer.from(s).toString('base64')\<close>\<close>

definition to_base64 :: "string \<Rightarrow> string" where
  "to_base64 s = base64 (map of_char s)"

definition baseHeaders :: "(string \<times> jsval) list" where
  "baseHeaders = [(''Accept'', Str ''application/json''),
                  (''User-Agent'', Str ''PMS-Claude-Plugin/1.0.0'')]"

definition getDefaultHeaders :: "string \<Rightarrow> string \<Rightarrow> jsval" where
  "getDefaultHeaders systemType apiToken =
     (if systemType = ''laracollab'' then
        Obj (baseHeaders @ [(''Authorization'', Str (''Bearer '' @ apiToken))])
      else if systemType = ''jira'' then
        Obj (baseHeaders @ [(''Authorization'', Str (''Basic '' @ to_base64 (apiToken @ '':''))),
                            (''Content-Type'', Str ''application/json'')])
      else if systemType = ''asana'' then
        Obj (baseHeaders @ [(''Authorization'', Str (''Bearer '' @ apiToken))])
      else if systemType = ''trello'' then
        Obj (baseHeaders @ [(''Authorization'',
                             Str (''OAuth oauth_consumer_key='' @ [CHR 0x22] @ apiToken @ [CHR 0x22]))])
      else
        Obj (baseHeaders @ [(''Authorization'', Str (''Bearer '' @ apiToken)),
                            (''X-API-Key'', Str apiToken)]))"

definition laracollab_endpoints :: jsval where
  "laracollab_endpoints = Obj [
     (''tasks'', Str ''/api/ai/tasks''),
     (''task'', Template ''/api/ai/tasks/'' ''''),
     (''createTask'', Str ''/api/ai/tasks''),
     (''startTask'', Template ''/api/ai/tasks/'' ''/start''),
     (''completeTask'', Template ''/api/ai/tasks/'' ''/complete''),
     (''updateProgress'', Template ''/api/ai/tasks/'' ''/progress''),
     (''addComment'', Template ''/api/ai/tasks/'' ''/comment''),
     (''projects'', Str ''/api/ai/projects''),
     (''project'', Template ''/api/ai/projects/'' ''''),
     (''systemInfo'', Str ''/api/ai/info''),
     (''user'', Str ''/api/user''),
     (''searchTasks'', Str ''/api/ai/tasks/search''),
     (''timeLogs'', Template ''/api/ai/tasks/'' ''/time-logs''),
     (''analyzeCriticalChain'', Template ''/api/ai/projects/'' ''/critical-chain/analyze''),
     (''enableCCPM'', Template ''/api/ai/projects/'' ''/ccpm/enable''),
     (''ccpmReport'', Template ''/api/ai/projects/'' ''/ccpm/report''),
     (''updateBufferStatus'', Template ''/api/ai/projects/'' ''/ccpm/buffer-status''),
     (''recalculateCriticalChain'', Template ''/api/ai/projects/'' ''/critical-chain/recalculate''),
     (''getResourceLoading'', Template ''/api/ai/projects/'' ''/ccpm/resource-loading''),
     (''identifyFeedingBuffers'', Template ''/api/ai/projects/'' ''/ccpm/feeding-buffers''),
     (''criticalChainTasks'', Template ''/api/ai/projects/'' ''/critical-chain/tasks''),
     (''updateTaskBuffer'', Template ''/api/ai/tasks/'' ''/ccpm/buffer''),
     (''ccpmDashboard'', Str ''/api/ai/ccpm/dashboard'')]"

definition jira_endpoints :: jsval where
  "jira_endpoints = Obj [
     (''tasks'', Str ''/rest/api/2/search?jql=project=PROJECTKEY''),
     (''task'', Template ''/rest/api/2/issue/'' ''''),
     (''createTask'', Str ''/rest/api/2/issue''),
     (''startTask'', Template ''/rest/api/2/issue/'' ''/transitions''),
     (''completeTask'', Template ''/rest/api/2/issue/'' ''/transitions''),
     (''updateProgress'', Template ''/rest/api/2/issue/'' ''''),
     (''addComment'', Template ''/rest/api/2/issue/'' ''/comment''),
     (''projects'', Str ''/rest/api/2/project''),
     (''project'', Template ''/rest/api/2/project/'' ''''),
     (''systemInfo'', Str ''/rest/api/2/serverInfo''),
     (''user'', Str ''/rest/api/2/myself''),
     (''searchTasks'', Str ''/rest/api/2/search''),
     (''timeLogs'', Template ''/rest/api/2/issue/'' ''/worklog'')]"

definition asana_endpoints :: jsval where
  "asana_endpoints = Obj [
     (''tasks'', Str ''/api/1.0/tasks''),
     (''task'', Template ''/api/1.0/tasks/'' ''''),
     (''createTask'', Str ''/api/1.0/tasks''),
     (''startTask'', Template ''/api/1.0/tasks/'' ''''),
     (''completeTask'', Template ''/api/1.0/tasks/'' ''''),
     (''updateProgress'', Template ''/api/1.0/tasks/'' ''''),
     (''addComment'', Template ''/api/1.0/tasks/'' ''/stories''),
     (''projects'', Str ''/api/1.0/projects''),
     (''project'', Template ''/api/1.0/projects/'' ''''),
     (''systemInfo'', Str ''/api/1.0/users/me''),
     (''user'', Str ''/api/1.0/users/me''),
     (''searchTasks'', Str ''/api/1.0/tasks/search''),
     (''timeLogs'', Template ''/api/1.0/tasks/'' ''/time_entries'')]"

definition trello_endpoints :: jsval where
  "trello_endpoints = Obj [
     (''tasks'', Str ''/1/boards/BOARD_ID/cards''),
     (''task'', Template ''/1/cards/'' ''''),
     (''createTask'', Str ''/1/cards''),
     (''startTask'', Template ''/1/cards/'' ''''),
     (''completeTask'', Template ''/1/cards/'' ''''),
     (''updateProgress'', Template ''/1/cards/'' ''''),
     (''addComment'', Template ''/1/cards/'' ''/actions/comments''),
     (''projects'', Str ''/1/members/me/boards''),
     (''project'', Template ''/1/boards/'' ''''),
     (''systemInfo'', Str ''/1/members/me''),
     (''user'', Str ''/1/members/me''),
     (''searchTasks'', Str ''/1/search''),
     (''timeLogs'', Template ''/1/cards/'' ''/actions'')]"

definition custom_endpoints :: jsval where
  "custom_endpoints = Obj [
     (''tasks'', Str ''/api/tasks''),
     (''task'', Template ''/api/tasks/'' ''''),
     (''createTask'', Str ''/api/tasks''),
     (''startTask'', Template ''/api/tasks/'' ''/start''),
     (''completeTask'', Template ''/api/tasks/'' ''/complete''),
     (''updateProgress'', Template ''/api/tasks/'' ''/progress''),
     (''addComment'', Template ''/api/tasks/'' ''/comments''),
     (''projects'', Str ''/api/projects''),
     (''project'', Template ''/api/projects/'' ''''),
     (''systemInfo'', Str ''/api/info''),
     (''user'', Str ''/api/user''),
     (''searchTasks'', Str ''/api/tasks/search''),
     (''timeLogs'', Template ''/api/tasks/'' ''/time-logs'')]"

definition getEndpoints :: "string \<Rightarrow> jsval" where
  "getEndpoints systemType =
     (if systemType = ''laracollab'' then laracollab_endpoints
      else if systemType = ''jira'' then jira_endpoints
      else if systemType = ''asana'' then asana_endpoints
      else if systemType = ''trello'' then trello_endpoints
      else custom_endpoints)"

text \<open>The \<^verbatim>\<open>value\<close> fields of \<^verbatim>\<open>getSupportedSystems()\<close>, in its order.\<close>

definition getSupportedSystems :: "string list" where
  "getSupportedSystems = [''laracollab'', ''jira'', ''asana'', ''trello'', ''custom'']"


section \<open>Errors as values, and the adapter's state\<close>

definition err_bind :: "js_error + 'a \<Rightarrow> ('a \<Rightarrow> js_error + 'b) \<Rightarrow> js_error + 'b" where
  "err_bind m f = (case m of Inl e \<Rightarrow> Inl e | Inr x \<Rightarrow> f x)"

text \<open>
  One \<^verbatim>\<open>PMSAPI\<close> object.  The \<^verbatim>\<open>client.defaults\<close> of the HTTP client are the three
  \<open>defaults_\<close> fields.  \<open>sent\<close> is not in the source: it records the requests the client
  has put on the wire, oldest first.
\<close>

record PMSAPI =
  baseUrl :: string
  apiToken :: string
  timeout :: nat
  systemType :: string
  lastError :: jsval
  defaults_baseURL :: string
  defaults_timeout :: nat
  defaults_headers :: jsval
  sent :: "request list"

text \<open>
  A computation on an object: it ends by returning (\<open>Inr\<close>) or throwing (\<open>Inl\<close>), and
  what it did to the object stays done either way.  The combinators serve the adapter
  object here and the plugin object further down.
\<close>

type_synonym 'a io = "PMSAPI \<Rightarrow> (js_error + 'a) \<times> PMSAPI"

definition io_return :: "'a \<Rightarrow> 's \<Rightarrow> (js_error + 'a) \<times> 's" where
  "io_return x this = (Inr x, this)"

definition io_lift :: "js_error + 'a \<Rightarrow> 's \<Rightarrow> (js_error + 'a) \<times> 's" where
  "io_lift r this = (r, this)"

definition io_bind :: "('s \<Rightarrow> (js_error + 'a) \<times> 's) \<Rightarrow> ('a \<Rightarrow> 's \<Rightarrow> (js_error + 'b) \<times> 's)
    \<Rightarrow> 's \<Rightarrow> (js_error + 'b) \<times> 's" where
  "io_bind m f this = (case m this of
       (Inl e, this') \<Rightarrow> (Inl e, this')
     | (Inr x, this') \<Rightarrow> f x this')"

text \<open>\<^verbatim>\<open>try { m } catch (error) { h error }\<close>\<close>

definition io_try :: "('s \<Rightarrow> (js_error + 'a) \<times> 's) \<Rightarrow> (js_error \<Rightarrow> 's \<Rightarrow> (js_error + 'a) \<times> 's)
    \<Rightarrow> 's \<Rightarrow> (js_error + 'a) \<times> 's" where
  "io_try m h this = (case m this of
       (Inl e, this') \<Rightarrow> h e this'
     | (Inr x, this') \<Rightarrow> (Inr x, this'))"

section \<open>The request client\<close>

definition entries :: "jsval \<Rightarrow> (string \<times> jsval) list" where
  "entries v = (case v of Obj kvs \<Rightarrow> kvs | _ \<Rightarrow> [])"

definition header_groups :: "string list" where
  "header_groups = [''delete'', ''get'', ''head'', ''post'', ''put'', ''patch'', ''common'']"

text \<open>
  Library behaviour, not repository code.  \<^verbatim>\<open>axios.create({headers: h})\<close> keeps the
  entries of \<open>h\<close> at the top level of \<^verbatim>\<open>defaults.headers\<close>, beside the library's own
  \<^verbatim>\<open>common\<close> and per-method groups; a request carries \<^verbatim>\<open>common\<close>, then the group of
  its method, then the top-level entries, a later entry replacing an earlier one of the
  same name.
\<close>

definition axios_default_headers :: "jsval \<Rightarrow> jsval" where
  "axios_default_headers h =
     Obj ([(''common'', Obj [(''Accept'', Str ''application/json, text/plain, */*'')]),
           (''delete'', Obj []), (''get'', Obj []), (''head'', Obj []),
           (''post'', Obj []), (''put'', Obj []), (''patch'', Obj [])] @ entries h)"

definition merge_entries :: "(string \<times> jsval) list \<Rightarrow> (string \<times> jsval) list \<Rightarrow> (string \<times> jsval) list" where
  "merge_entries base extra = fold (\<lambda>(k, v). AList.update k v) extra base"

definition request_headers :: "jsval \<Rightarrow> string \<Rightarrow> jsval" where
  "request_headers hs method =
     Obj (merge_entries
            (merge_entries (entries (lookup hs ''common'')) (entries (lookup hs method)))
            (filter (\<lambda>(k, v). k \<notin> set header_groups) (entries hs)))"

text \<open>
  \<^verbatim>\<open>this.client.get/post/put\<close> with both response interceptors.  The request interceptor
  only logs.  A success resolves to \<^verbatim>\<open>response.data\<close>; a failure stores the message in
  \<^verbatim>\<open>lastError\<close> and throws a fresh \<^verbatim>\<open>Error\<close>, which has a message and nothing else.
\<close>

definition client_request :: "runtime \<Rightarrow> string \<Rightarrow> jsval \<Rightarrow> jsval \<Rightarrow> jsval io" where
  "client_request rt method url body this =
     (let req = \<lparr>req_method = method, req_url = url, req_data = body,
                 req_headers = request_headers (defaults_headers this) method\<rparr>;
          this1 = this\<lparr>sent := sent this @ [req]\<rparr>
      in case transport rt req of
           HttpOk payload \<Rightarrow> (Inr payload, this1)
         | HttpErr msg resp \<Rightarrow>
             (let message = js_or (case resp of None \<Rightarrow> Undefined
                                   | Some r \<Rightarrow> lookup (resp_data r) ''message'') (Str msg)
              in (Inl (Error (''PMS API Error: '' @ to_string rt message)),
                  this1\<lparr>lastError := message\<rparr>)))"

definition client_get :: "runtime \<Rightarrow> jsval \<Rightarrow> jsval io" where
  "client_get rt url = client_request rt ''get'' url Undefined"

definition client_post :: "runtime \<Rightarrow> jsval \<Rightarrow> jsval \<Rightarrow> jsval io" where
  "client_post rt url payload = client_request rt ''post'' url payload"

definition client_put :: "runtime \<Rightarrow> jsval \<Rightarrow> jsval \<Rightarrow> jsval io" where
  "client_put rt url payload = client_request rt ''put'' url payload"

text \<open>\<^verbatim>\<open>s.replace(/\/$/, '')\<close>\<close>

definition strip_trailing_slash :: "string \<Rightarrow> string" where
  "strip_trailing_slash s = (if s \<noteq> [] \<and> last s = CHR ''/'' then butlast s else s)"

text \<open>
  The constructor; \<open>None\<close> is an omitted argument.  \<^verbatim>\<open>baseUrl.replace\<close> needs a string.
\<close>

definition PMSAPI_new :: "jsval \<Rightarrow> string \<Rightarrow> nat option \<Rightarrow> string option \<Rightarrow> js_error + PMSAPI" where
  "PMSAPI_new baseUrl0 apiToken0 timeout0 systemType0 =
     (let timeout1 = (case timeout0 of None \<Rightarrow> 30000 | Some t \<Rightarrow> t);
          systemType1 = (case systemType0 of None \<Rightarrow> ''laracollab'' | Some s \<Rightarrow> s)
      in case baseUrl0 of
           Str u \<Rightarrow>
             Inr \<lparr>baseUrl = strip_trailing_slash u, apiToken = apiToken0, timeout = timeout1,
                  systemType = systemType1, lastError = Null,
                  defaults_baseURL = strip_trailing_slash u, defaults_timeout = timeout1,
                  defaults_headers = axios_default_headers (getDefaultHeaders systemType1 apiToken0),
                  sent = []\<rparr>
         | Undefined \<Rightarrow> Inl (TypeError (''Cannot read properties of undefined (reading '' @ [CHR 0x27] @ ''replace'' @ [CHR 0x27] @ '')''))
         | Null \<Rightarrow> Inl (TypeError (''Cannot read properties of null (reading '' @ [CHR 0x27] @ ''replace'' @ [CHR 0x27] @ '')''))
         | _ \<Rightarrow> Inl (TypeError ''baseUrl.replace is not a function''))"

definition handleError :: "runtime \<Rightarrow> js_error \<Rightarrow> jsval" where
  "handleError rt error =
     (let status = (case err_response error of None \<Rightarrow> Undefined | Some r \<Rightarrow> resp_status r);
          data = (case err_response error of None \<Rightarrow> Obj [] | Some r \<Rightarrow> js_or (resp_data r) (Obj []));
          errorResponse =
            [(''success'', Bool False),
             (''message'', js_or (js_or (lookup data ''message'') (Str (err_message error)))
                                 (Str ''Unknown API error'')),
             (''status'', status),
             (''data'', js_or (lookup data ''errors'') Null)]
      in if development rt
         then Obj (errorResponse @
                [(''details'', Obj (case err_config error of
                     None \<Rightarrow> [(''url'', Undefined), (''method'', Undefined),
                               (''headers'', Undefined), (''data'', Undefined)]
                   | Some c \<Rightarrow> [(''url'', req_url c), (''method'', Str (req_method c)),
                                 (''headers'', req_headers c), (''data'', req_data c)]))])
         else Obj errorResponse)"

definition getLastError :: "PMSAPI \<Rightarrow> jsval" where
  "getLastError this = lastError this"

definition setTimeout :: "nat \<Rightarrow> PMSAPI \<Rightarrow> PMSAPI" where
  "setTimeout t this = this\<lparr>timeout := t, defaults_timeout := t\<rparr>"

text \<open>
  \<^verbatim>\<open>this.client.defaults.headers.common['Authorization'] = ...\<close>: a write into the
  \<^verbatim>\<open>common\<close> group, which throws when there is no such group.
\<close>

definition setApiToken :: "string \<Rightarrow> unit io" where
  "setApiToken token this =
     (let this1 = this\<lparr>apiToken := token\<rparr>;
          authorization = lookup (getDefaultHeaders (systemType this1) (apiToken this1)) ''Authorization'';
          hs = defaults_headers this1
      in case lookup hs ''common'' of
           Obj common \<Rightarrow>
             (Inr (), this1\<lparr>defaults_headers :=
                 Obj (AList.update ''common'' (Obj (AList.update ''Authorization'' authorization common))
                        (entries hs))\<rparr>)
         | Undefined \<Rightarrow> (Inl (TypeError (''Cannot set properties of undefined (setting '' @ [CHR 0x27] @ ''Authorization'' @ [CHR 0x27] @ '')'')), this1)
         | Null \<Rightarrow> (Inl (TypeError (''Cannot set properties of null (setting '' @ [CHR 0x27] @ ''Authorization'' @ [CHR 0x27] @ '')'')), this1)
         | _ \<Rightarrow> (Inl (TypeError (''Cannot create property '' @ [CHR 0x27] @ ''Authorization'' @ [CHR 0x27])), this1))"

definition setBaseUrl :: "string \<Rightarrow> PMSAPI \<Rightarrow> PMSAPI" where
  "setBaseUrl url this =
     this\<lparr>baseUrl := strip_trailing_slash url, defaults_baseURL := strip_trailing_slash url\<rparr>"

definition setSystemType :: "string \<Rightarrow> PMSAPI \<Rightarrow> PMSAPI" where
  "setSystemType s this =
     this\<lparr>systemType := s, defaults_headers := getDefaultHeaders s (apiToken this)\<rparr>"

definition getSystemType :: "PMSAPI \<Rightarrow> string" where
  "getSystemType this = systemType this"


section \<open>Parameter and payload translation\<close>

text \<open>A parameter with a default value: \<^verbatim>\<open>f(x = d)\<close>.\<close>

definition default_arg :: "jsval \<Rightarrow> jsval \<Rightarrow> jsval" where
  "default_arg v d = (if v = Undefined then d else v)"

text \<open>\<^verbatim>\<open>a === b\<close> and \<^verbatim>\<open>a !== b\<close> against a string or boolean literal.\<close>

definition strict_eq :: "jsval \<Rightarrow> jsval \<Rightarrow> bool" where
  "strict_eq a b = (a = b)"

definition hex_digit :: "nat \<Rightarrow> char" where
  "hex_digit n = ''0123456789ABCDEF'' ! (n mod 16)"

definition form_safe :: "char \<Rightarrow> bool" where
  "form_safe c = (let n = (of_char c :: nat) in
      (48 \<le> n \<and> n \<le> 57) \<or> (65 \<le> n \<and> n \<le> 90) \<or> (97 \<le> n \<and> n \<le> 122)
      \<or> c = CHR ''*'' \<or> c = CHR ''-'' \<or> c = CHR ''.'' \<or> c = CHR ''_'')"

text \<open>The \<^verbatim>\<open>application/x-www-form-urlencoded\<close> byte serializer.\<close>

fun form_encode :: "string \<Rightarrow> string" where
  "form_encode [] = []"
| "form_encode (c # cs) =
     (if form_safe c then [c]
      else if c = CHR '' '' then ''+''
      else [CHR ''%'', hex_digit (of_char c div 16), hex_digit (of_char c)]) @ form_encode cs"

text \<open>
  \<^verbatim>\<open>new URLSearchParams(init).toString()\<close>.  For a record every own entry is written,
  its value converted to a string first, so an entry holding \<^verbatim>\<open>undefined\<close> is written
  as \<^verbatim>\<open>key=undefined\<close>.
\<close>

definition URLSearchParams :: "runtime \<Rightarrow> jsval \<Rightarrow> js_error + string" where
  "URLSearchParams rt init = (case init of
       Obj kvs \<Rightarrow> Inr (intercalate ''&''
                        (map (\<lambda>(k, v). form_encode k @ ''='' @ form_encode (to_string rt v)) kvs))
     | _ \<Rightarrow> query_of rt init)"

definition buildJQL :: "runtime \<Rightarrow> jsval \<Rightarrow> js_error + string" where
  "buildJQL rt filters =
     err_bind (get_prop filters ''status'') (\<lambda>status.
       (let jql0 = ''project = PROJECTKEY'';
            jql1 = (if truthy status
                    then jql0 @ '' AND status = '' @ [CHR 0x22] @ to_string rt status @ [CHR 0x22]
                    else jql0);
            priority = lookup filters ''priority'';
            jql2 = (if truthy priority
                    then jql1 @ '' AND priority = '' @ [CHR 0x22] @ to_string rt priority @ [CHR 0x22]
                    else jql1);
            assignee = lookup filters ''assignee'';
            jql3 = (if truthy assignee
                    then jql2 @ '' AND assignee = '' @ [CHR 0x22] @ to_string rt assignee @ [CHR 0x22]
                    else jql2)
        in Inr jql3))"

definition buildTrelloFilter :: "runtime \<Rightarrow> jsval \<Rightarrow> js_error + string" where
  "buildTrelloFilter rt filters =
     err_bind (get_prop filters ''status'') (\<lambda>status.
       (let filterParts1 = (if strict_eq status (Str ''completed'')
                            then [''closed:true''] else [''closed:false'']);
            project_id = lookup filters ''project_id'';
            filterParts2 = (if truthy project_id
                            then filterParts1 @ [''board:'' @ [CHR 0x22] @ to_string rt project_id @ [CHR 0x22]]
                            else filterParts1)
        in Inr (intercalate '' '' filterParts2)))"

text \<open>
  In the builders below the first property read is the one that can throw (on
  \<^verbatim>\<open>null\<close> or \<^verbatim>\<open>undefined\<close>); once it has succeeded the others are plain lookups.
\<close>

definition buildTaskParams :: "runtime \<Rightarrow> string \<Rightarrow> jsval \<Rightarrow> js_error + jsval" where
  "buildTaskParams rt sys filters =
     (if sys = ''laracollab'' then
        err_bind (get_prop filters ''status'') (\<lambda>status.
          Inr (Obj [(''status'', status),
                    (''priority'', lookup filters ''priority''),
                    (''project_id'', lookup filters ''project_id'')]))
      else if sys = ''jira'' then
        err_bind (buildJQL rt filters) (\<lambda>jql.
          Inr (Obj [(''jql'', Str jql),
                    (''fields'', Str ''summary,status,project,created,updated,priority,assignee'')]))
      else if sys = ''asana'' then
        err_bind (get_prop filters ''project_id'') (\<lambda>project_id.
          Inr (Obj [(''project'', project_id),
                    (''assignee'', Str ''me''),
                    (''completed'', Bool (if strict_eq (lookup filters ''status'') (Str ''completed'')
                                          then True else False))]))
      else if sys = ''trello'' then
        err_bind (buildTrelloFilter rt filters) (\<lambda>f. Inr (Obj [(''filter'', Str f)]))
      else Inr filters)"

definition buildTaskPayload :: "string \<Rightarrow> jsval \<Rightarrow> js_error + jsval" where
  "buildTaskPayload sys taskData =
     (if sys = ''laracollab'' then
        err_bind (get_prop taskData ''project_id'') (\<lambda>project_id.
          Inr (Obj [(''project_id'', project_id),
                    (''name'', lookup taskData ''name''),
                    (''description'', lookup taskData ''description''),
                    (''estimation'', lookup taskData ''estimation''),
                    (''pricing_type'', js_or (lookup taskData ''pricing_type'') (Str ''hourly'')),
                    (''billable'', Bool (\<not> strict_eq (lookup taskData ''billable'') (Bool False))),
                    (''priority'', js_or (lookup taskData ''priority'') (Str ''medium''))]))
      else if sys = ''jira'' then
        err_bind (get_prop taskData ''project_key'') (\<lambda>project_key.
          Inr (Obj [(''fields'', Obj [
                 (''project'', Obj [(''key'', project_key)]),
                 (''summary'', lookup taskData ''name''),
                 (''description'', lookup taskData ''description''),
                 (''priority'', Obj [(''name'', js_or (lookup taskData ''priority'') (Str ''Medium''))]),
                 (''issuetype'', Obj [(''name'', js_or (lookup taskData ''issue_type'') (Str ''Task''))])])]))
      else if sys = ''asana'' then
        err_bind (get_prop taskData ''project_id'') (\<lambda>project_id.
          Inr (Obj [(''projects'', Arr [project_id]),
                    (''name'', lookup taskData ''name''),
                    (''notes'', lookup taskData ''description''),
                    (''assignee'', Str ''me'')]))
      else if sys = ''trello'' then
        err_bind (get_prop taskData ''name'') (\<lambda>name.
          Inr (Obj [(''name'', name),
                    (''desc'', lookup taskData ''description''),
                    (''idList'', lookup taskData ''list_id''),
                    (''due'', lookup taskData ''due_date'')]))
      else Inr taskData)"

definition buildStartTaskPayload :: "string \<Rightarrow> jsval" where
  "buildStartTaskPayload sys =
     (if sys = ''jira'' then Obj [(''transition'', Obj [(''id'', Str ''3'')])]
      else if sys = ''asana'' then Obj [(''assignee_status'', Str ''upcoming'')]
      else Obj [])"


definition buildCompletionPayload :: "string \<Rightarrow> jsval \<Rightarrow> js_error + jsval" where
  "buildCompletionPayload sys completionData =
     (if sys = ''laracollab'' then
        err_bind (get_prop completionData ''completion_notes'') (\<lambda>completion_notes.
          Inr (Obj [(''completion_notes'', completion_notes),
                    (''deliverables'', js_or (lookup completionData ''deliverables'') (Arr [])),
                    (''time_spent_minutes'', lookup completionData ''time_spent_minutes'')]))
      else if sys = ''jira'' then
        err_bind (get_prop completionData ''completion_notes'') (\<lambda>completion_notes.
          Inr (Obj [(''transition'', Obj [(''id'', Str ''5'')]),
                    (''update'', Obj [(''summary'', completion_notes),
                                      (''resolution'', Obj [(''name'', Str ''Done'')])])]))
      else if sys = ''asana'' then
        err_bind (get_prop completionData ''completion_notes'') (\<lambda>completion_notes.
          Inr (Obj [(''completed'', Bool True), (''notes'', completion_notes)]))
      else if sys = ''trello'' then
        err_bind (get_prop completionData ''completion_notes'') (\<lambda>completion_notes.
          Inr (Obj [(''closed'', Bool True), (''desc'', completion_notes)]))
      else Inr completionData)"


definition buildCCPMPayload :: "string \<Rightarrow> jsval \<Rightarrow> js_error + jsval" where
  "buildCCPMPayload sys settings =
     (if sys = ''laracollab'' then
        err_bind (get_prop settings ''project_buffer_percentage'') (\<lambda>project_buffer_percentage.
          Inr (Obj [(''project_buffer_percentage'', js_or project_buffer_percentage (Num 50)),
                    (''feeding_buffer_percentage'', js_or (lookup settings ''feeding_buffer_percentage'') (Num 25)),
                    (''resource_utilization_target'', js_or (lookup settings ''resource_utilization_target'') (Num 75)),
                    (''analyze_immediately'', Bool (\<not> strict_eq (lookup settings ''analyze_immediately'') (Bool False))),
                    (''critical_chain_start_date'', lookup settings ''start_date''),
                    (''estimated_duration_days'', lookup settings ''duration_days'')]))
      else Inr settings)"

definition buildBufferPayload :: "string \<Rightarrow> jsval \<Rightarrow> js_error + jsval" where
  "buildBufferPayload sys bufferData =
     (if sys = ''laracollab'' then
        err_bind (get_prop bufferData ''project_buffer_consumed_percentage'') (\<lambda>consumed.
          Inr (Obj [(''project_buffer_consumed_percentage'', consumed),
                    (''feeding_buffers_status'', js_or (lookup bufferData ''feeding_buffers_status'') (Arr [])),
                    (''critical_tasks_status'', js_or (lookup bufferData ''critical_tasks_status'') (Arr [])),
                    (''buffer_analysis_notes'', lookup bufferData ''buffer_analysis_notes'')]))
      else Inr bufferData)"

definition buildTaskBufferPayload :: "string \<Rightarrow> jsval \<Rightarrow> js_error + jsval" where
  "buildTaskBufferPayload sys bufferData =
     (if sys = ''laracollab'' then
        err_bind (get_prop bufferData ''buffer_consumption_percentage'') (\<lambda>buffer_consumption_percentage.
          Inr (Obj [(''buffer_consumption_percentage'', buffer_consumption_percentage),
                    (''ccpm_status'', lookup bufferData ''ccpm_status''),
                    (''actual_duration_days'', lookup bufferData ''actual_duration_days''),
                    (''buffer_notes'', lookup bufferData ''buffer_notes''),
                    (''completion_variance_days'', lookup bufferData ''completion_variance_days'')]))
      else Inr bufferData)"


section \<open>The adapter's public methods\<close>

fun show_nat :: "nat \<Rightarrow> string" where
  "show_nat n = (if n < 10 then [''0123456789'' ! n] else show_nat (n div 10) @ [''0123456789'' ! (n mod 10)])"

text \<open>
  The entries \<^verbatim>\<open>{...v}\<close> copies: those of an object, the indexed elements of an array
  or of a string, nothing otherwise.
\<close>

definition spread :: "jsval \<Rightarrow> (string \<times> jsval) list" where
  "spread v = (case v of
       Obj kvs \<Rightarrow> kvs
     | Arr xs \<Rightarrow> map (\<lambda>(i, x). (show_nat i, x)) (zip [0 ..< length xs] xs)
     | Str cs \<Rightarrow> map (\<lambda>(i, c). (show_nat i, Str [c])) (zip [0 ..< length cs] cs)
     | _ \<Rightarrow> [])"

text \<open>
  Every method below is the source's \<^verbatim>\<open>try { ... } catch (error) { return
  this.handleError(error); }\<close>.
\<close>

definition getSystemInfo :: "runtime \<Rightarrow> jsval io" where
  "getSystemInfo rt this =
     io_try
       (let endpoints = getEndpoints (systemType this) in
        client_get rt (lookup endpoints ''systemInfo''))
       (\<lambda>error. io_return (handleError rt error)) this"

definition testConnection :: "runtime \<Rightarrow> bool io" where
  "testConnection rt =
     io_try
       (io_bind (getSystemInfo rt) (\<lambda>response.
          io_return (truthy response \<and>
                     truthy (js_or (js_or (lookup response ''ai_version'') (lookup response ''version''))
                                   (lookup response ''id'')))))
       (\<lambda>error. io_return False)"

definition getTasks :: "runtime \<Rightarrow> jsval \<Rightarrow> jsval io" where
  "getTasks rt filters0 this =
     io_try
       (let endpoints = getEndpoints (systemType this) in
        io_bind (io_lift (buildTaskParams rt (systemType this) (default_arg filters0 (Obj [])))) (\<lambda>params.
        io_bind (io_lift (if truthy params
                          then err_bind (URLSearchParams rt params) (\<lambda>q. Inr (''?'' @ q))
                          else Inr [])) (\<lambda>query.
          client_get rt (Str (to_string rt (lookup endpoints ''tasks'') @ query)))))
       (\<lambda>error. io_return (handleError rt error)) this"


definition createTask :: "runtime \<Rightarrow> jsval \<Rightarrow> jsval io" where
  "createTask rt taskData this =
     io_try
       (let endpoints = getEndpoints (systemType this) in
        io_bind (io_lift (buildTaskPayload (systemType this) taskData)) (\<lambda>payload.
          client_post rt (lookup endpoints ''createTask'') payload))
       (\<lambda>error. io_return (handleError rt error)) this"

definition startTask :: "runtime \<Rightarrow> jsval \<Rightarrow> jsval io" where
  "startTask rt taskId this =
     io_try
       (let endpoints = getEndpoints (systemType this) in
        (let payload = buildStartTaskPayload (systemType this) in
         io_bind (io_lift (call rt ''endpoints.startTask'' (lookup endpoints ''startTask'') taskId))
           (\<lambda>url. client_post rt url payload)))
       (\<lambda>error. io_return (handleError rt error)) this"


definition completeTask :: "runtime \<Rightarrow> jsval \<Rightarrow> jsval \<Rightarrow> jsval io" where
  "completeTask rt taskId completionData this =
     io_try
       (let endpoints = getEndpoints (systemType this) in
        io_bind (io_lift (buildCompletionPayload (systemType this) completionData)) (\<lambda>payload.
        io_bind (io_lift (call rt ''endpoints.completeTask'' (lookup endpoints ''completeTask'') taskId))
          (\<lambda>url. client_post rt url payload)))
       (\<lambda>error. io_return (handleError rt error)) this"


definition getProjects :: "runtime \<Rightarrow> jsval io" where
  "getProjects rt this =
     io_try
       (let endpoints = getEndpoints (systemType this) in
        client_get rt (lookup endpoints ''projects''))
       (\<lambda>error. io_return (handleError rt error)) this"





definition analyzeCriticalChain :: "runtime \<Rightarrow> jsval \<Rightarrow> jsval io" where
  "analyzeCriticalChain rt projectId this =
     io_try
       (let endpoints = getEndpoints (systemType this) in
        io_bind (io_lift (call rt ''endpoints.analyzeCriticalChain'' (lookup endpoints ''analyzeCriticalChain'') projectId))
          (\<lambda>url. client_get rt url))
       (\<lambda>error. io_return (handleError rt error)) this"

definition enableCCPM :: "runtime \<Rightarrow> jsval \<Rightarrow> jsval \<Rightarrow> jsval io" where
  "enableCCPM rt projectId settings0 this =
     io_try
       (let endpoints = getEndpoints (systemType this) in
        io_bind (io_lift (buildCCPMPayload (systemType this) (default_arg settings0 (Obj [])))) (\<lambda>payload.
        io_bind (io_lift (call rt ''endpoints.enableCCPM'' (lookup endpoints ''enableCCPM'') projectId))
          (\<lambda>url. client_post rt url payload)))
       (\<lambda>error. io_return (handleError rt error)) this"

definition getCCPMReport :: "runtime \<Rightarrow> jsval \<Rightarrow> jsval io" where
  "getCCPMReport rt projectId this =
     io_try
       (let endpoints = getEndpoints (systemType this) in
        io_bind (io_lift (call rt ''endpoints.ccpmReport'' (lookup endpoints ''ccpmReport'') projectId))
          (\<lambda>url. client_get rt url))
       (\<lambda>error. io_return (handleError rt error)) this"

definition updateBufferStatus :: "runtime \<Rightarrow> jsval \<Rightarrow> jsval \<Rightarrow> jsval io" where
  "updateBufferStatus rt projectId bufferData this =
     io_try
       (let endpoints = getEndpoints (systemType this) in
        io_bind (io_lift (buildBufferPayload (systemType this) bufferData)) (\<lambda>payload.
        io_bind (io_lift (call rt ''endpoints.updateBufferStatus'' (lookup endpoints ''updateBufferStatus'') projectId))
          (\<lambda>url. client_put rt url payload)))
       (\<lambda>error. io_return (handleError rt error)) this"

definition recalculateCriticalChain :: "runtime \<Rightarrow> jsval \<Rightarrow> jsval io" where
  "recalculateCriticalChain rt projectId this =
     io_try
       (let endpoints = getEndpoints (systemType this) in
        io_bind (io_lift (call rt ''endpoints.recalculateCriticalChain''
                            (lookup endpoints ''recalculateCriticalChain'') projectId))
          (\<lambda>url. client_post rt url (Obj [])))
       (\<lambda>error. io_return (handleError rt error)) this"

definition getResourceLoading :: "runtime \<Rightarrow> jsval \<Rightarrow> jsval io" where
  "getResourceLoading rt projectId this =
     io_try
       (let endpoints = getEndpoints (systemType this) in
        io_bind (io_lift (call rt ''endpoints.getResourceLoading'' (lookup endpoints ''getResourceLoading'') projectId))
          (\<lambda>url. client_get rt url))
       (\<lambda>error. io_return (handleError rt error)) this"

definition identifyFeedingBuffers :: "runtime \<Rightarrow> jsval \<Rightarrow> jsval io" where
  "identifyFeedingBuffers rt projectId this =
     io_try
       (let endpoints = getEndpoints (systemType this) in
        io_bind (io_lift (call rt ''endpoints.identifyFeedingBuffers'' (lookup endpoints ''identifyFeedingBuffers'') projectId))
          (\<lambda>url. client_get rt url))
       (\<lambda>error. io_return (handleError rt error)) this"


definition updateTaskBuffer :: "runtime \<Rightarrow> jsval \<Rightarrow> jsval \<Rightarrow> jsval io" where
  "updateTaskBuffer rt taskId bufferData this =
     io_try
       (let endpoints = getEndpoints (systemType this) in
        io_bind (io_lift (buildTaskBufferPayload (systemType this) bufferData)) (\<lambda>payload.
        io_bind (io_lift (call rt ''endpoints.updateTaskBuffer'' (lookup endpoints ''updateTaskBuffer'') taskId))
          (\<lambda>url. client_put rt url payload)))
       (\<lambda>error. io_return (handleError rt error)) this"



section \<open>Display text\<close>

definition nl :: string where
  "nl = [CHR 0x0A]"

definition quote :: "string \<Rightarrow> string" where
  "quote s = [CHR 0x27] @ s @ [CHR 0x27]"

text \<open>The UTF-8 bytes of the cross mark, the bullet, the rocket, the bust and the bar chart.\<close>

definition cross_mark :: string where
  "cross_mark = [CHR 0xE2, CHR 0x9D, CHR 0x8C]"

definition bullet :: string where
  "bullet = [CHR 0xE2, CHR 0x80, CHR 0xA2]"

definition rocket :: string where
  "rocket = [CHR 0xF0, CHR 0x9F, CHR 0x9A, CHR 0x80]"

definition bust :: string where
  "bust = [CHR 0xF0, CHR 0x9F, CHR 0x91, CHR 0xA4]"

definition bar_chart :: string where
  "bar_chart = [CHR 0xF0, CHR 0x9F, CHR 0x93, CHR 0x8A]"

definition formatError :: "runtime \<Rightarrow> jsval \<Rightarrow> jsval \<Rightarrow> string" where
  "formatError rt message details0 =
     (let details = default_arg details0 Null;
          output0 = ''**'' @ cross_mark @ '' Error:** '' @ to_string rt message;
          output1 = (if truthy details
                     then output0 @ nl @ nl @ ''**Details:** '' @ to_string rt details
                     else output0)
      in output1 @ nl @ nl @ ''**Troubleshooting:**'' @ nl
           @ bullet @ '' Check your API connection with `/lara-status`'' @ nl
           @ bullet @ '' Verify your configuration with `/lara-config`'' @ nl
           @ bullet @ '' Make sure you have internet access'')"

definition formatSystemInfo :: "runtime \<Rightarrow> jsval \<Rightarrow> string" where
  "formatSystemInfo rt info =
     (if \<not> truthy info \<or> \<not> truthy (lookup info ''ai_version'')
      then formatError rt (Str ''Unable to connect to LaraCollab API'') Undefined
      else
        (let output0 = ''**'' @ rocket @ '' LaraCollab System Information**'' @ nl @ nl
               @ ''**AI Version:** '' @ to_string rt (lookup info ''ai_version'') @ nl
               @ ''**Laravel Version:** ''
               @ to_string rt (js_or (lookup info ''laravel_version'') (Str ''Unknown'')) @ nl
               @ ''**PHP Version:** ''
               @ to_string rt (js_or (lookup info ''php_version'') (Str ''Unknown'')) @ nl;
             user = lookup info ''user'';
             output1 = (if truthy user
                        then output0 @ nl @ ''**'' @ bust @ '' User Information**'' @ nl
                          @ ''**Name:** '' @ to_string rt (js_or (lookup user ''name'') (Str ''Unknown'')) @ nl
                          @ ''**Email:** '' @ to_string rt (js_or (lookup user ''email'') (Str ''Unknown'')) @ nl
                        else output0);
             output2 = (if truthy (lookup info ''uptime'')
                        then output1 @ nl @ ''**'' @ bar_chart @ '' System Status**'' @ nl
                          @ ''**Uptime:** '' @ to_string rt (lookup info ''uptime'') @ nl
                          @ ''**Memory Usage:** ''
                          @ to_string rt (js_or (lookup info ''memory_usage'') (Str ''Unknown'')) @ nl
                        else output1)
         in output2))"

section \<open>Reading command arguments\<close>

definition starts_with :: "string \<Rightarrow> string \<Rightarrow> bool" where
  "starts_with s p = (take (length p) s = p)"

text \<open>\<^verbatim>\<open>s.replace(pat, '')\<close> with a string pattern: the first occurrence goes.\<close>

fun remove_first :: "string \<Rightarrow> string \<Rightarrow> string" where
  "remove_first pat [] = []"
| "remove_first pat (c # cs) =
     (if take (length pat) (c # cs) = pat then drop (length pat) (c # cs)
      else c # remove_first pat cs)"

definition is_digit :: "char \<Rightarrow> bool" where
  "is_digit c = (48 \<le> (of_char c :: nat) \<and> (of_char c :: nat) \<le> 57)"

text \<open>\<^verbatim>\<open>s.match(/^(\d+)$/)\<close>\<close>

definition all_digits :: "string \<Rightarrow> bool" where
  "all_digits s = (s \<noteq> [] \<and> list_all is_digit s)"

text \<open>
  \<^verbatim>\<open>parseInt\<close> of a string of decimal digits; the rounding of values beyond
  \<open>2^53\<close> is not modelled.
\<close>

definition digits_value :: "string \<Rightarrow> jsval" where
  "digits_value s = Num (of_nat (foldl (\<lambda>n c. 10 * n + (of_char c - 48)) 0 s))"

definition lower_char :: "char \<Rightarrow> char" where
  "lower_char c = (if 65 \<le> (of_char c :: nat) \<and> (of_char c :: nat) \<le> 90
                   then char_of (of_char c + (32 :: nat)) else c)"

text \<open>
  \<^verbatim>\<open>s.toLowerCase()\<close> on the ASCII letters, which is all that a comparison against the
  lower-case ASCII keywords below can see.
\<close>

definition toLowerCase :: "string \<Rightarrow> string" where
  "toLowerCase s = map lower_char s"

definition parseTaskFilters_arg :: "runtime \<Rightarrow> (string \<times> jsval) list \<Rightarrow> string \<Rightarrow> (string \<times> jsval) list" where
  "parseTaskFilters_arg rt filters arg =
     (let a = toLowerCase arg in
      if a = ''completed'' then AList.update ''status'' (Str ''completed'') filters
      else if a = ''pending'' then AList.update ''status'' (Str ''pending'') filters
      else if a = ''in_progress'' then AList.update ''status'' (Str ''in_progress'') filters
      else if a = ''urgent'' then AList.update ''priority'' (Str ''urgent'') filters
      else if a = ''high'' then AList.update ''priority'' (Str ''high'') filters
      else if a = ''medium'' then AList.update ''priority'' (Str ''medium'') filters
      else if a = ''low'' then AList.update ''priority'' (Str ''low'') filters
      else if starts_with arg ''project:''
        then (let projectId = parseInt rt (remove_first ''project:'' arg)
              in if truthy projectId then AList.update ''project_id'' projectId filters else filters)
      else filters)"

definition parseTaskFilters :: "runtime \<Rightarrow> string list \<Rightarrow> jsval" where
  "parseTaskFilters rt args = Obj (foldl (parseTaskFilters_arg rt) [] args)"

fun extractProjectId :: "runtime \<Rightarrow> string list \<Rightarrow> jsval" where
  "extractProjectId rt [] = Null"
| "extractProjectId rt (arg # args) =
     (if all_digits arg then digits_value arg
      else if starts_with arg ''project:'' then parseInt rt (remove_first ''project:'' arg)
      else extractProjectId rt args)"

definition parseCCPMSettings_arg :: "runtime \<Rightarrow> (string \<times> jsval) list \<Rightarrow> string \<Rightarrow> (string \<times> jsval) list" where
  "parseCCPMSettings_arg rt settings arg =
     (if starts_with arg ''project-buffer:''
        then AList.update ''project_buffer_percentage'' (parseFloat rt (remove_first ''project-buffer:'' arg)) settings
      else if starts_with arg ''feeding-buffer:''
        then AList.update ''feeding_buffer_percentage'' (parseFloat rt (remove_first ''feeding-buffer:'' arg)) settings
      else if starts_with arg ''resource-utilization:''
        then AList.update ''resource_utilization_target'' (parseFloat rt (remove_first ''resource-utilization:'' arg)) settings
      else if starts_with arg ''start-date:''
        then AList.update ''start_date'' (Str (remove_first ''start-date:'' arg)) settings
      else if starts_with arg ''duration:''
        then AList.update ''duration_days'' (parseInt rt (remove_first ''duration:'' arg)) settings
      else if starts_with arg ''auto-analyze:''
        then AList.update ''analyze_immediately'' (Bool (remove_first ''auto-analyze:'' arg = ''true'')) settings
      else settings)"

definition parseCCPMSettings :: "runtime \<Rightarrow> string list \<Rightarrow> jsval" where
  "parseCCPMSettings rt args = Obj (foldl (parseCCPMSettings_arg rt) [] args)"

text \<open>The pair \<^verbatim>\<open>{ taskId, percentage }\<close>, both \<^verbatim>\<open>null\<close> at the start.\<close>

definition parseBufferUpdateArgs_arg :: "runtime \<Rightarrow> jsval \<times> jsval \<Rightarrow> string \<Rightarrow> jsval \<times> jsval" where
  "parseBufferUpdateArgs_arg rt acc arg =
     (if all_digits arg then (digits_value arg, snd acc)
      else if CHR ''%'' \<in> set arg \<or> parseFloat rt arg \<noteq> NaN
        then (fst acc, parseFloat rt (remove_first ''%'' arg))
      else acc)"

definition parseBufferUpdateArgs :: "runtime \<Rightarrow> string list \<Rightarrow> jsval \<times> jsval" where
  "parseBufferUpdateArgs rt args = foldl (parseBufferUpdateArgs_arg rt) (Null, Null) args"


section \<open>The command objects\<close>

text \<open>
  \<^verbatim>\<open>TaskCommands\<close>, \<^verbatim>\<open>ProjectCommands\<close> and \<^verbatim>\<open>CriticalChainCommands\<close> each hold the
  adapter they were built with and nothing else, so a method of theirs is a computation
  on that adapter.  A response counts as a success when it has a truthy \<^verbatim>\<open>success\<close>
  field.
\<close>

definition TaskCommands_listTasks :: "runtime \<Rightarrow> jsval \<Rightarrow> jsval io" where
  "TaskCommands_listTasks rt filters0 =
     io_try
       (io_bind (getTasks rt (default_arg filters0 (Obj []))) (\<lambda>response.
        io_bind (io_lift (get_prop response ''success'')) (\<lambda>success.
          if truthy success
          then io_bind (io_lift (get_prop (lookup response ''data'') ''data'')) (\<lambda>inner.
               io_bind (io_lift (view rt ''formatTaskList'' [js_or inner (lookup response ''data'')])) (\<lambda>text. io_return (Str text)))
          else io_return (Str (formatError rt (js_or (lookup response ''message'') (Str ''Failed to fetch tasks'')) Undefined)))))
       (\<lambda>error. io_return (Str (formatError rt (Str (''Error fetching tasks: '' @ err_message error)) Undefined)))"

definition TaskCommands_createTask :: "runtime \<Rightarrow> jsval \<Rightarrow> jsval io" where
  "TaskCommands_createTask rt taskData =
     io_try
       (let defaultData = [(''pricing_type'', Str ''hourly''), (''billable'', Bool True),
                           (''status'', Str ''pending'')];
            finalTaskData = Obj (merge_entries defaultData (spread taskData))
        in io_bind (createTask rt finalTaskData) (\<lambda>response.
           io_bind (io_lift (get_prop response ''success'')) (\<lambda>success.
             if truthy success
             then io_bind (io_lift (view rt ''TaskCommands.createTask'' [lookup response ''data'']))
                    (\<lambda>text. io_return (Str text))
             else io_return (Str (formatError rt (js_or (lookup response ''message'') (Str ''Failed to create task'')) Undefined)))))
       (\<lambda>error. io_return (Str (formatError rt (Str (''Error creating task: '' @ err_message error)) Undefined)))"

definition TaskCommands_startTask :: "runtime \<Rightarrow> jsval \<Rightarrow> jsval io" where
  "TaskCommands_startTask rt taskId =
     io_try
       (io_bind (startTask rt taskId) (\<lambda>response.
        io_bind (io_lift (get_prop response ''success'')) (\<lambda>success.
          if truthy success
          then io_bind (io_lift (view rt ''TaskCommands.startTask'' [taskId, lookup response ''data''])) (\<lambda>text. io_return (Str text))
          else io_return (Str (formatError rt (js_or (lookup response ''message'') (Str ''Failed to start task'')) Undefined)))))
       (\<lambda>error. io_return (Str (formatError rt (Str (''Error starting task: '' @ err_message error)) Undefined)))"

definition TaskCommands_completeTask :: "runtime \<Rightarrow> jsval \<Rightarrow> jsval \<Rightarrow> jsval io" where
  "TaskCommands_completeTask rt taskId completionData =
     io_try
       (let defaultCompletionData = [(''completion_notes'', Str ''Task completed via Claude Code plugin''),
                                     (''deliverables'', Arr [])];
            finalCompletionData = Obj (merge_entries defaultCompletionData (spread completionData))
        in io_bind (completeTask rt taskId finalCompletionData) (\<lambda>response.
           io_bind (io_lift (get_prop response ''success'')) (\<lambda>success.
             if truthy success
             then io_bind (io_lift (view rt ''TaskCommands.completeTask'' [lookup response ''data'', finalCompletionData]))
                    (\<lambda>text. io_return (Str text))
             else io_return (Str (formatError rt (js_or (lookup response ''message'') (Str ''Failed to complete task'')) Undefined)))))
       (\<lambda>error. io_return (Str (formatError rt (Str (''Error completing task: '' @ err_message error)) Undefined)))"

text \<open>
  \<^verbatim>\<open>parseTaskArgs\<close>: the fields found so far and the free text; a name or description
  that is missing or empty is filled in at the end.
\<close>

definition parseTaskArgs_arg :: "runtime \<Rightarrow> (string \<times> jsval) list \<times> string list \<Rightarrow> string
    \<Rightarrow> (string \<times> jsval) list \<times> string list" where
  "parseTaskArgs_arg rt acc arg =
     (let taskData = fst acc; textParts = snd acc in
      if starts_with arg ''project:''
        then (AList.update ''project_id'' (parseInt rt (remove_first ''project:'' arg)) taskData, textParts)
      else if starts_with arg ''estimate:''
        then (AList.update ''estimation'' (parseFloat rt (remove_first ''estimate:'' arg)) taskData, textParts)
      else if starts_with arg ''type:''
        then (AList.update ''pricing_type'' (Str (remove_first ''type:'' arg)) taskData, textParts)
      else if starts_with arg ''name:''
        then (AList.update ''name'' (Str (remove_first ''name:'' arg)) taskData, textParts)
      else if starts_with arg ''desc:''
        then (AList.update ''description'' (Str (remove_first ''desc:'' arg)) taskData, textParts)
      else (taskData, textParts @ [arg]))"

definition parseTaskArgs :: "runtime \<Rightarrow> string list \<Rightarrow> jsval" where
  "parseTaskArgs rt args =
     (let acc = foldl (parseTaskArgs_arg rt) ([], []) args;
          taskData1 = (if \<not> truthy (lookup (Obj (fst acc)) ''name'')
                       then AList.update ''name'' (Str (intercalate '' '' (snd acc))) (fst acc)
                       else fst acc);
          taskData2 = (if \<not> truthy (lookup (Obj taskData1) ''description'')
                       then AList.update ''description''
                              (Str (''Created via Claude Code plugin at '' @ now_iso rt)) taskData1
                       else taskData1)
      in Obj taskData2)"

fun extractTaskId :: "string list \<Rightarrow> jsval" where
  "extractTaskId [] = Null"
| "extractTaskId (arg # args) = (if all_digits arg then digits_value arg else extractTaskId args)"

definition parseCompletionArgs :: "string list \<Rightarrow> jsval \<times> string" where
  "parseCompletionArgs args =
     (extractTaskId args, intercalate '' '' (filter (\<lambda>arg. \<not> all_digits arg) args))"

definition ProjectCommands_listProjects :: "runtime \<Rightarrow> jsval io" where
  "ProjectCommands_listProjects rt =
     io_try
       (io_bind (getProjects rt) (\<lambda>response.
        io_bind (io_lift (get_prop response ''success'')) (\<lambda>success.
          if truthy success
          then io_bind (io_lift (view rt ''formatProjectList'' [lookup response ''data''])) (\<lambda>text. io_return (Str text))
          else io_return (Str (formatError rt (js_or (lookup response ''message'') (Str ''Failed to fetch projects'')) Undefined)))))
       (\<lambda>error. io_return (Str (formatError rt (Str (''Error fetching projects: '' @ err_message error)) Undefined)))"

definition CriticalChainCommands_analyzeCriticalChain :: "runtime \<Rightarrow> jsval \<Rightarrow> jsval io" where
  "CriticalChainCommands_analyzeCriticalChain rt projectId =
     io_try
       (io_bind (analyzeCriticalChain rt projectId) (\<lambda>response.
        io_bind (io_lift (get_prop response ''success'')) (\<lambda>success.
          if truthy success
          then io_bind (io_lift (view rt ''CriticalChainCommands.analyzeCriticalChain'' [projectId, lookup response ''data''])) (\<lambda>text. io_return (Str text))
          else io_return (Str (formatError rt (js_or (lookup response ''message'') (Str ''Failed to analyze critical chain'')) Undefined)))))
       (\<lambda>error. io_return (Str (formatError rt (Str (''Error analyzing critical chain: '' @ err_message error)) Undefined)))"

definition CriticalChainCommands_enableCCPM :: "runtime \<Rightarrow> jsval \<Rightarrow> jsval \<Rightarrow> jsval io" where
  "CriticalChainCommands_enableCCPM rt projectId settings0 =
     io_try
       (let defaultSettings = [(''project_buffer_percentage'', Num 50),
                               (''feeding_buffer_percentage'', Num 25),
                               (''resource_utilization_target'', Num 75),
                               (''analyze_immediately'', Bool True)];
            finalSettings = Obj (merge_entries defaultSettings (spread (default_arg settings0 (Obj []))))
        in io_bind (enableCCPM rt projectId finalSettings) (\<lambda>response.
           io_bind (io_lift (get_prop response ''success'')) (\<lambda>success.
             if truthy success
             then io_bind (io_lift (view rt ''CriticalChainCommands.enableCCPM'' [projectId, lookup response ''data'']))
                    (\<lambda>text. io_return (Str text))
             else io_return (Str (formatError rt (js_or (lookup response ''message'') (Str ''Failed to enable CCPM'')) Undefined)))))
       (\<lambda>error. io_return (Str (formatError rt (Str (''Error enabling CCPM: '' @ err_message error)) Undefined)))"

definition CriticalChainCommands_generateCCPMReport :: "runtime \<Rightarrow> jsval \<Rightarrow> jsval io" where
  "CriticalChainCommands_generateCCPMReport rt projectId =
     io_try
       (io_bind (getCCPMReport rt projectId) (\<lambda>response.
        io_bind (io_lift (get_prop response ''success'')) (\<lambda>success.
          if truthy success
          then io_bind (io_lift (view rt ''formatCCPMReport'' [lookup response ''data''])) (\<lambda>text. io_return (Str text))
          else io_return (Str (formatError rt (js_or (lookup response ''message'') (Str ''Failed to generate CCPM report'')) Undefined)))))
       (\<lambda>error. io_return (Str (formatError rt (Str (''Error generating CCPM report: '' @ err_message error)) Undefined)))"

definition CriticalChainCommands_updateBufferStatus :: "runtime \<Rightarrow> jsval \<Rightarrow> jsval \<Rightarrow> jsval io" where
  "CriticalChainCommands_updateBufferStatus rt projectId bufferData =
     io_try
       (io_bind (updateBufferStatus rt projectId bufferData) (\<lambda>response.
        io_bind (io_lift (get_prop response ''success'')) (\<lambda>success.
          if truthy success
          then io_bind (io_lift (view rt ''CriticalChainCommands.updateBufferStatus'' [projectId, lookup response ''data''])) (\<lambda>text. io_return (Str text))
          else io_return (Str (formatError rt (js_or (lookup response ''message'') (Str ''Failed to update buffer status'')) Undefined)))))
       (\<lambda>error. io_return (Str (formatError rt (Str (''Error updating buffer status: '' @ err_message error)) Undefined)))"

definition CriticalChainCommands_recalculateCriticalChain :: "runtime \<Rightarrow> jsval \<Rightarrow> jsval io" where
  "CriticalChainCommands_recalculateCriticalChain rt projectId =
     io_try
       (io_bind (recalculateCriticalChain rt projectId) (\<lambda>response.
        io_bind (io_lift (get_prop response ''success'')) (\<lambda>success.
          if truthy success
          then io_bind (io_lift (view rt ''CriticalChainCommands.recalculateCriticalChain'' [projectId, lookup response ''data''])) (\<lambda>text. io_return (Str text))
          else io_return (Str (formatError rt (js_or (lookup response ''message'') (Str ''Failed to recalculate critical chain'')) Undefined)))))
       (\<lambda>error. io_return (Str (formatError rt (Str (''Error recalculating critical chain: '' @ err_message error)) Undefined)))"

definition CriticalChainCommands_getResourceLoading :: "runtime \<Rightarrow> jsval \<Rightarrow> jsval io" where
  "CriticalChainCommands_getResourceLoading rt projectId =
     io_try
       (io_bind (getResourceLoading rt projectId) (\<lambda>response.
        io_bind (io_lift (get_prop response ''success'')) (\<lambda>success.
          if truthy success
          then io_bind (io_lift (view rt ''CriticalChainCommands.getResourceLoading'' [projectId, lookup response ''data''])) (\<lambda>text. io_return (Str text))
          else io_return (Str (formatError rt (js_or (lookup response ''message'') (Str ''Failed to get resource loading'')) Undefined)))))
       (\<lambda>error. io_return (Str (formatError rt (Str (''Error getting resource loading: '' @ err_message error)) Undefined)))"

definition CriticalChainCommands_identifyFeedingBuffers :: "runtime \<Rightarrow> jsval \<Rightarrow> jsval io" where
  "CriticalChainCommands_identifyFeedingBuffers rt projectId =
     io_try
       (io_bind (identifyFeedingBuffers rt projectId) (\<lambda>response.
        io_bind (io_lift (get_prop response ''success'')) (\<lambda>success.
          if truthy success
          then io_bind (io_lift (view rt ''CriticalChainCommands.identifyFeedingBuffers'' [projectId, lookup response ''data''])) (\<lambda>text. io_return (Str text))
          else io_return (Str (formatError rt (js_or (lookup response ''message'') (Str ''Failed to identify feeding buffers'')) Undefined)))))
       (\<lambda>error. io_return (Str (formatError rt (Str (''Error identifying feeding buffers: '' @ err_message error)) Undefined)))"

text \<open>
  The methods \<^verbatim>\<open>CriticalChainCommands\<close> defines.  The class has no
  \<^verbatim>\<open>updateTaskBuffer\<close> and no \<^verbatim>\<open>getCCPMDashboard\<close>.
\<close>

definition CriticalChainCommands_methods :: "string list" where
  "CriticalChainCommands_methods = [''analyzeCriticalChain'', ''enableCCPM'', ''generateCCPMReport'',
     ''updateBufferStatus'', ''recalculateCriticalChain'', ''getResourceLoading'',
     ''identifyFeedingBuffers'']"


section \<open>The plugin and its command handlers\<close>

text \<open>
  The configuration record, as far as the plugin reads it; an absent entry is the empty
  string, or \<open>0\<close> for the timeout.
\<close>

record configuration =
  cfg_baseUrl :: string
  cfg_apiToken :: string
  cfg_timeout :: nat

definition isConfigured :: "configuration \<Rightarrow> bool" where
  "isConfigured c = (cfg_baseUrl c \<noteq> [] \<and> cfg_apiToken c \<noteq> [])"

text \<open>
  The plugin object.  \<open>None\<close> is \<^verbatim>\<open>null\<close>.  A command object is the adapter it holds;
  the plugin never reads an adapter's fields back, so each holder's copy stands for the
  one shared object.
\<close>

record PMSPlugin =
  config :: configuration
  api :: "PMSAPI option"
  taskCommands :: "PMSAPI option"
  projectCommands :: "PMSAPI option"
  criticalChainCommands :: "PMSAPI option"

definition PMSPlugin_new :: PMSPlugin where
  "PMSPlugin_new = \<lparr>config = \<lparr>cfg_baseUrl = [], cfg_apiToken = [], cfg_timeout = 0\<rparr>,
                     api = None, taskCommands = None, projectCommands = None,
                     criticalChainCommands = None\<rparr>"

text \<open>
  \<^verbatim>\<open>initConfig\<close>, given what \<^verbatim>\<open>loadConfig\<close> left in the configuration and whether it
  threw.  A failure anywhere is only logged.
\<close>

definition initConfig :: "configuration \<Rightarrow> js_error option \<Rightarrow> PMSPlugin \<Rightarrow> PMSPlugin" where
  "initConfig loaded threw plugin =
     (let plugin1 = plugin\<lparr>config := loaded\<rparr> in
      if threw = None \<and> isConfigured loaded then
        (case PMSAPI_new (Str (cfg_baseUrl loaded)) (cfg_apiToken loaded)
                (Some (if cfg_timeout loaded = 0 then 30 else cfg_timeout loaded)) None of
           Inl e \<Rightarrow> plugin1
         | Inr a \<Rightarrow> plugin1\<lparr>api := Some a, taskCommands := Some a, projectCommands := Some a,
                             criticalChainCommands := Some a\<rparr>)
      else plugin1)"

definition ensureConfigured :: "PMSPlugin \<Rightarrow> js_error + bool" where
  "ensureConfigured plugin =
     (if api plugin = None \<or> \<not> isConfigured (config plugin)
      then Inl (Error ''PMS not configured. Please run `/pms-config` first.'')
      else Inr True)"

definition io_get :: "('s \<Rightarrow> js_error + 'a) \<Rightarrow> 's \<Rightarrow> (js_error + 'a) \<times> 's" where
  "io_get f s = (f s, s)"

definition null_read :: "string \<Rightarrow> js_error" where
  "null_read method = TypeError (''Cannot read properties of null (reading '' @ quote method @ '')'')"

text \<open>\<^verbatim>\<open>this.api.method(...)\<close> and the like: the holder may be \<^verbatim>\<open>null\<close>.\<close>

definition on_api :: "string \<Rightarrow> (PMSAPI \<Rightarrow> (js_error + 'a) \<times> PMSAPI) \<Rightarrow> PMSPlugin \<Rightarrow> (js_error + 'a) \<times> PMSPlugin" where
  "on_api method m plugin = (case api plugin of
       None \<Rightarrow> (Inl (null_read method), plugin)
     | Some obj \<Rightarrow> (case m obj of (r, obj') \<Rightarrow> (r, plugin\<lparr>api := Some obj'\<rparr>)))"

definition on_taskCommands :: "string \<Rightarrow> (PMSAPI \<Rightarrow> (js_error + 'a) \<times> PMSAPI) \<Rightarrow> PMSPlugin \<Rightarrow> (js_error + 'a) \<times> PMSPlugin" where
  "on_taskCommands method m plugin = (case taskCommands plugin of
       None \<Rightarrow> (Inl (null_read method), plugin)
     | Some obj \<Rightarrow> (case m obj of (r, obj') \<Rightarrow> (r, plugin\<lparr>taskCommands := Some obj'\<rparr>)))"

definition on_projectCommands :: "string \<Rightarrow> (PMSAPI \<Rightarrow> (js_error + 'a) \<times> PMSAPI) \<Rightarrow> PMSPlugin \<Rightarrow> (js_error + 'a) \<times> PMSPlugin" where
  "on_projectCommands method m plugin = (case projectCommands plugin of
       None \<Rightarrow> (Inl (null_read method), plugin)
     | Some obj \<Rightarrow> (case m obj of (r, obj') \<Rightarrow> (r, plugin\<lparr>projectCommands := Some obj'\<rparr>)))"

definition on_criticalChainCommands :: "string \<Rightarrow> (PMSAPI \<Rightarrow> (js_error + 'a) \<times> PMSAPI) \<Rightarrow> PMSPlugin \<Rightarrow> (js_error + 'a) \<times> PMSPlugin" where
  "on_criticalChainCommands method m plugin = (case criticalChainCommands plugin of
       None \<Rightarrow> (Inl (null_read method), plugin)
     | Some obj \<Rightarrow> (case m obj of (r, obj') \<Rightarrow> (r, plugin\<lparr>criticalChainCommands := Some obj'\<rparr>)))"

text \<open>
  A call of a method that \<^verbatim>\<open>CriticalChainCommands\<close> does not define: reading it gives
  \<^verbatim>\<open>undefined\<close>, and calling that throws.
\<close>

definition on_criticalChainCommands_undefined :: "string \<Rightarrow> PMSPlugin \<Rightarrow> (js_error + jsval) \<times> PMSPlugin" where
  "on_criticalChainCommands_undefined method plugin = (case criticalChainCommands plugin of
       None \<Rightarrow> (Inl (null_read method), plugin)
     | Some obj \<Rightarrow> (Inl (TypeError (''this.criticalChainCommands.'' @ method @ '' is not a function'')), plugin))"

text \<open>
  Every handler but two opens with \<^verbatim>\<open>if (!this.ensureConfigured()) return;\<close>, ahead of
  its \<^verbatim>\<open>try\<close>.
\<close>

definition handleTasksCommand :: "runtime \<Rightarrow> string list \<Rightarrow> PMSPlugin \<Rightarrow> (js_error + jsval) \<times> PMSPlugin" where
  "handleTasksCommand rt args =
     io_bind (io_get ensureConfigured) (\<lambda>configured.
       if \<not> configured then io_return Undefined
       else io_try
         (on_taskCommands ''listTasks'' (TaskCommands_listTasks rt (parseTaskFilters rt args)))
         (\<lambda>error. io_return (Str (formatError rt (Str (''Error fetching tasks: '' @ err_message error)) Undefined))))"

definition handleProjectsCommand :: "runtime \<Rightarrow> PMSPlugin \<Rightarrow> (js_error + jsval) \<times> PMSPlugin" where
  "handleProjectsCommand rt =
     io_bind (io_get ensureConfigured) (\<lambda>configured.
       if \<not> configured then io_return Undefined
       else io_try
         (on_projectCommands ''listProjects'' (ProjectCommands_listProjects rt))
         (\<lambda>error. io_return (Str (formatError rt (Str (''Error fetching projects: '' @ err_message error)) Undefined))))"

definition handleCreateTaskCommand :: "runtime \<Rightarrow> string list \<Rightarrow> PMSPlugin \<Rightarrow> (js_error + jsval) \<times> PMSPlugin" where
  "handleCreateTaskCommand rt args =
     io_bind (io_get ensureConfigured) (\<lambda>configured.
       if \<not> configured then io_return Undefined
       else io_try
         (io_bind (on_taskCommands ''parseTaskArgs'' (io_return (parseTaskArgs rt args))) (\<lambda>taskData.
            on_taskCommands ''createTask'' (TaskCommands_createTask rt taskData)))
         (\<lambda>error. io_return (Str (formatError rt (Str (''Error creating task: '' @ err_message error)) Undefined))))"

definition handleStartTaskCommand :: "runtime \<Rightarrow> string list \<Rightarrow> PMSPlugin \<Rightarrow> (js_error + jsval) \<times> PMSPlugin" where
  "handleStartTaskCommand rt args =
     io_bind (io_get ensureConfigured) (\<lambda>configured.
       if \<not> configured then io_return Undefined
       else io_try
         (io_bind (on_taskCommands ''extractTaskId'' (io_return (extractTaskId args))) (\<lambda>taskId.
            if \<not> truthy taskId
            then io_return (Str (formatError rt (Str ''Please provide a valid task ID: /pms-start-task <task-id>'') Undefined))
            else on_taskCommands ''startTask'' (TaskCommands_startTask rt taskId)))
         (\<lambda>error. io_return (Str (formatError rt (Str (''Error starting task: '' @ err_message error)) Undefined))))"

definition handleCompleteTaskCommand :: "runtime \<Rightarrow> string list \<Rightarrow> PMSPlugin \<Rightarrow> (js_error + jsval) \<times> PMSPlugin" where
  "handleCompleteTaskCommand rt args =
     io_bind (io_get ensureConfigured) (\<lambda>configured.
       if \<not> configured then io_return Undefined
       else io_try
         (io_bind (on_taskCommands ''parseCompletionArgs'' (io_return (parseCompletionArgs args))) (\<lambda>parsed.
            if \<not> truthy (fst parsed)
            then io_return (Str (formatError rt (Str ''Please provide a valid task ID: /pms-complete-task <task-id> [notes]'') Undefined))
            else (let completionData =
                        Obj [(''completion_notes'', js_or (Str (snd parsed)) (Str ''Task completed via PMS plugin'')),
                             (''deliverables'', Arr [])]
                  in on_taskCommands ''completeTask'' (TaskCommands_completeTask rt (fst parsed) completionData))))
         (\<lambda>error. io_return (Str (formatError rt (Str (''Error completing task: '' @ err_message error)) Undefined))))"

text \<open>
  \<^verbatim>\<open>message += piece\<close> where \<^verbatim>\<open>message\<close> was declared with \<^verbatim>\<open>const\<close>: the assignment
  throws.
\<close>

definition const_append :: "string \<Rightarrow> string \<Rightarrow> js_error + string" where
  "const_append message piece = Inl (TypeError ''Assignment to constant variable.'')"

definition const_appends :: "string \<Rightarrow> string list \<Rightarrow> js_error + string" where
  "const_appends message pieces =
     foldl (\<lambda>m piece. err_bind m (\<lambda>message'. const_append message' piece)) (Inr message) pieces"

text \<open>The bytes the source file holds between \<^verbatim>\<open>Status:**\<close> and \<^verbatim>\<open>Not Configured\<close>.\<close>

definition status_sign :: string where
  "status_sign = [CHR 0xE2, CHR 0x80, CHR 0x9A, CHR 0xC3, CHR 0xB6, CHR 0xE2, CHR 0x80, CHR 0xA0,
                  CHR 0xC3, CHR 0x94, CHR 0xE2, CHR 0x88, CHR 0x8F, CHR 0xC3, CHR 0xA8]"

definition status_not_configured :: "js_error + jsval" where
  "status_not_configured =
     err_bind (const_appends (''**PMS Plugin Status:** '' @ status_sign @ '' Not Configured'' @ nl @ nl)
        [''Please run `/pms-config` to set up your Project Management System API connection.'' @ nl @ nl,
         ''**Example setup:**'' @ nl,
         ''```'' @ nl,
         ''/pms-config'' @ nl,
         ''```'' @ nl @ nl,
         ''Then provide:'' @ nl,
         ''- Base URL: https://your-pms-domain.com'' @ nl,
         ''- API Token: Your API token from PMS settings''])
       (\<lambda>message. Inr (Str message))"

definition status_connection_error :: "runtime \<Rightarrow> js_error \<Rightarrow> js_error + jsval" where
  "status_connection_error rt error =
     err_bind (const_appends (''Connection error: '' @ err_message error @ nl @ nl)
        [''**Troubleshooting:**'' @ nl,
         ''1. Check your internet connection'' @ nl,
         ''2. Verify your PMS instance is accessible'' @ nl,
         ''3. Run `/pms-config` to update your settings'' @ nl,
         ''4. Check if your API token is valid''])
       (\<lambda>message. Inr (Str (formatError rt (Str message) Undefined)))"

definition handleStatusCommand :: "runtime \<Rightarrow> PMSPlugin \<Rightarrow> (js_error + jsval) \<times> PMSPlugin" where
  "handleStatusCommand rt plugin =
     (if api plugin = None then (status_not_configured, plugin)
      else io_try
             (io_bind (on_api ''getSystemInfo'' (getSystemInfo rt)) (\<lambda>info.
                io_return (Str (formatSystemInfo rt info))))
             (\<lambda>error. io_lift (status_connection_error rt error)) plugin)"

definition handleCCPMEnableCommand :: "runtime \<Rightarrow> string list \<Rightarrow> PMSPlugin \<Rightarrow> (js_error + jsval) \<times> PMSPlugin" where
  "handleCCPMEnableCommand rt args =
     io_bind (io_get ensureConfigured) (\<lambda>configured.
       if \<not> configured then io_return Undefined
       else io_try
         (let projectId = extractProjectId rt args in
          if \<not> truthy projectId
          then io_return (Str (formatError rt (Str ''Please provide a project ID: /ccpm-enable <project-id> [options]'') Undefined))
          else on_criticalChainCommands ''enableCCPM''
                 (CriticalChainCommands_enableCCPM rt projectId (parseCCPMSettings rt args)))
         (\<lambda>error. io_return (Str (formatError rt (Str (''Error enabling CCPM: '' @ err_message error)) Undefined))))"

definition handleCCPMAnalyzeCommand :: "runtime \<Rightarrow> string list \<Rightarrow> PMSPlugin \<Rightarrow> (js_error + jsval) \<times> PMSPlugin" where
  "handleCCPMAnalyzeCommand rt args =
     io_bind (io_get ensureConfigured) (\<lambda>configured.
       if \<not> configured then io_return Undefined
       else io_try
         (let projectId = extractProjectId rt args in
          if \<not> truthy projectId
          then io_return (Str (formatError rt (Str ''Please provide a project ID: /ccpm-analyze <project-id>'') Undefined))
          else on_criticalChainCommands ''analyzeCriticalChain'' (CriticalChainCommands_analyzeCriticalChain rt projectId))
         (\<lambda>error. io_return (Str (formatError rt (Str (''Error analyzing critical chain: '' @ err_message error)) Undefined))))"

definition handleCCPMReportCommand :: "runtime \<Rightarrow> string list \<Rightarrow> PMSPlugin \<Rightarrow> (js_error + jsval) \<times> PMSPlugin" where
  "handleCCPMReportCommand rt args =
     io_bind (io_get ensureConfigured) (\<lambda>configured.
       if \<not> configured then io_return Undefined
       else io_try
         (let projectId = extractProjectId rt args in
          if \<not> truthy projectId
          then io_return (Str (formatError rt (Str ''Please provide a project ID: /ccpm-report <project-id>'') Undefined))
          else on_criticalChainCommands ''generateCCPMReport'' (CriticalChainCommands_generateCCPMReport rt projectId))
         (\<lambda>error. io_return (Str (formatError rt (Str (''Error generating CCPM report: '' @ err_message error)) Undefined))))"

definition handleCCPMResourcesCommand :: "runtime \<Rightarrow> string list \<Rightarrow> PMSPlugin \<Rightarrow> (js_error + jsval) \<times> PMSPlugin" where
  "handleCCPMResourcesCommand rt args =
     io_bind (io_get ensureConfigured) (\<lambda>configured.
       if \<not> configured then io_return Undefined
       else io_try
         (let projectId = extractProjectId rt args in
          if \<not> truthy projectId
          then io_return (Str (formatError rt (Str ''Please provide a project ID: /ccpm-resources <project-id>'') Undefined))
          else on_criticalChainCommands ''getResourceLoading'' (CriticalChainCommands_getResourceLoading rt projectId))
         (\<lambda>error. io_return (Str (formatError rt (Str (''Error getting resource loading: '' @ err_message error)) Undefined))))"

definition handleCCPMBuffersCommand :: "runtime \<Rightarrow> string list \<Rightarrow> PMSPlugin \<Rightarrow> (js_error + jsval) \<times> PMSPlugin" where
  "handleCCPMBuffersCommand rt args =
     io_bind (io_get ensureConfigured) (\<lambda>configured.
       if \<not> configured then io_return Undefined
       else io_try
         (let projectId = extractProjectId rt args in
          if \<not> truthy projectId
          then io_return (Str (formatError rt (Str ''Please provide a project ID: /ccpm-buffers <project-id>'') Undefined))
          else on_criticalChainCommands ''identifyFeedingBuffers'' (CriticalChainCommands_identifyFeedingBuffers rt projectId))
         (\<lambda>error. io_return (Str (formatError rt (Str (''Error identifying feeding buffers: '' @ err_message error)) Undefined))))"

definition handleCCPMRecalculateCommand :: "runtime \<Rightarrow> string list \<Rightarrow> PMSPlugin \<Rightarrow> (js_error + jsval) \<times> PMSPlugin" where
  "handleCCPMRecalculateCommand rt args =
     io_bind (io_get ensureConfigured) (\<lambda>configured.
       if \<not> configured then io_return Undefined
       else io_try
         (let projectId = extractProjectId rt args in
          if \<not> truthy projectId
          then io_return (Str (formatError rt (Str ''Please provide a project ID: /ccpm-recalculate <project-id>'') Undefined))
          else on_criticalChainCommands ''recalculateCriticalChain'' (CriticalChainCommands_recalculateCriticalChain rt projectId))
         (\<lambda>error. io_return (Str (formatError rt (Str (''Error recalculating critical chain: '' @ err_message error)) Undefined))))"

definition handleCCPMDashboardCommand :: "runtime \<Rightarrow> PMSPlugin \<Rightarrow> (js_error + jsval) \<times> PMSPlugin" where
  "handleCCPMDashboardCommand rt =
     io_bind (io_get ensureConfigured) (\<lambda>configured.
       if \<not> configured then io_return Undefined
       else io_try
         (on_criticalChainCommands_undefined ''getCCPMDashboard'')
         (\<lambda>error. io_return (Str (formatError rt (Str (''Error getting CCPM dashboard: '' @ err_message error)) Undefined))))"

text \<open>\<^verbatim>\<open>v > n\<close> for a number or \<^verbatim>\<open>null\<close> on the left.\<close>

definition js_gt :: "jsval \<Rightarrow> rat \<Rightarrow> bool" where
  "js_gt v n = (case v of Num r \<Rightarrow> r > n | _ \<Rightarrow> False)"

text \<open>
  The \<^verbatim>\<open>bufferData\<close> object of \<^verbatim>\<open>handleCCPMUpdateBufferCommand\<close>.
  \<^verbatim>\<open>parseFloat(percentage)\<close> prints the number and reads it back.
\<close>

definition bufferData_of :: "runtime \<Rightarrow> jsval \<Rightarrow> jsval" where
  "bufferData_of rt percentage =
     Obj [(''buffer_consumption_percentage'', parseFloat rt (to_string rt percentage)),
          (''ccpm_status'', Str (if js_gt percentage 75 then ''buffer_consumed''
                                 else if js_gt percentage 50 then ''in_progress''
                                 else ''not_started'')),
          (''buffer_notes'', Str ''Buffer updated via PMS plugin'')]"

definition handleCCPMUpdateBufferCommand :: "runtime \<Rightarrow> string list \<Rightarrow> PMSPlugin \<Rightarrow> (js_error + jsval) \<times> PMSPlugin" where
  "handleCCPMUpdateBufferCommand rt args =
     io_bind (io_get ensureConfigured) (\<lambda>configured.
       if \<not> configured then io_return Undefined
       else io_try
         (let parsed = parseBufferUpdateArgs rt args;
              taskId = fst parsed; percentage = snd parsed in
          if \<not> truthy taskId \<or> \<not> truthy percentage
          then io_return (Str (formatError rt (Str ''Please provide task ID and buffer percentage: /ccpm-update-buffer <task-id> <percentage>'') Undefined))
          else (let bufferData = bufferData_of rt percentage
                in on_criticalChainCommands_undefined ''updateTaskBuffer''))
         (\<lambda>error. io_return (Str (formatError rt (Str (''Error updating task buffer: '' @ err_message error)) Undefined))))"


section \<open>What the properties are stated with\<close>

text \<open>
  The names the public methods read from the endpoint table: those of the task, project
  and system methods, and those of the CCPM methods.
\<close>

definition core_operations :: "string list" where
  "core_operations = [''tasks'', ''task'', ''createTask'', ''startTask'', ''completeTask'',
     ''updateProgress'', ''addComment'', ''projects'', ''project'', ''systemInfo'', ''user'',
     ''searchTasks'', ''timeLogs'']"

definition ccpm_operations :: "string list" where
  "ccpm_operations = [''analyzeCriticalChain'', ''enableCCPM'', ''ccpmReport'', ''updateBufferStatus'',
     ''recalculateCriticalChain'', ''getResourceLoading'', ''identifyFeedingBuffers'',
     ''criticalChainTasks'', ''updateTaskBuffer'', ''ccpmDashboard'']"





text \<open>The request \<^verbatim>\<open>getSystemInfo\<close> puts on the wire.\<close>

definition systemInfo_request :: "PMSAPI \<Rightarrow> request" where
  "systemInfo_request this =
     \<lparr>req_method = ''get'', req_url = lookup (getEndpoints (systemType this)) ''systemInfo'',
      req_data = Undefined, req_headers = request_headers (defaults_headers this) ''get''\<rparr>"


subsection \<open>Worked examples\<close>

text \<open>
  A runtime for the examples.  Its conversions are stand-ins that are exact on the
  integers and on strings of digits, which is all the examples convert; its views print
  their own name.
\<close>

definition show_integral :: "rat \<Rightarrow> string" where
  "show_integral r = (if r < 0 then ''-'' else []) @ show_nat (nat \<lfloor>\<bar>r\<bar>\<rfloor>)"

definition read_digits :: "string \<Rightarrow> jsval" where
  "read_digits s = (if all_digits s then digits_value s else NaN)"

definition sample_runtime :: "(request \<Rightarrow> http_result) \<Rightarrow> runtime" where
  "sample_runtime server =
     \<lparr>transport = server, development = False, number_to_string = show_integral,
      query_of = (\<lambda>v. Inr []), parseInt = read_digits, parseFloat = read_digits,
      now_iso = ''2024-01-01T00:00:00.000Z'', view = (\<lambda>name args. Inr name)\<rparr>"

definition server_401 :: "request \<Rightarrow> http_result" where
  "server_401 req = HttpErr ''Request failed with status code 401''
     (Some \<lparr>resp_status = Num 401, resp_data = Obj [(''message'', Str ''Unauthenticated.'')]\<rparr>)"

definition server_down :: "request \<Rightarrow> http_result" where
  "server_down req = HttpErr ''Network Error'' None"

definition server_ok :: "jsval \<Rightarrow> request \<Rightarrow> http_result" where
  "server_ok payload req = HttpOk payload"

text \<open>The adapter \<^verbatim>\<open>new PMSAPI('https://x.test/', 'secret-token', undefined, sys)\<close> builds.\<close>

definition sample_api :: "string \<Rightarrow> PMSAPI" where
  "sample_api sys =
     \<lparr>baseUrl = ''https://x.test'', apiToken = ''secret-token'', timeout = 30000,
      systemType = sys, lastError = Null, defaults_baseURL = ''https://x.test'',
      defaults_timeout = 30000,
      defaults_headers = axios_default_headers (getDefaultHeaders sys ''secret-token''),
      sent = []\<rparr>"

definition sample_config :: configuration where
  "sample_config = \<lparr>cfg_baseUrl = ''https://x.test/'', cfg_apiToken = ''secret-token'', cfg_timeout = 30\<rparr>"

definition sample_plugin :: PMSPlugin where
  "sample_plugin = initConfig sample_config None PMSPlugin_new"


section \<open>Properties\<close>

lemma sample_api_constructed:
  "PMSAPI_new (Str ''https://x.test/'') ''secret-token'' None (Some sys) = Inr (sample_api sys)"
  by (simp add: PMSAPI_new_def sample_api_def strip_trailing_slash_def)

subsection \<open>Endpoint tables\<close>

text \<open>
  C1, as stated, fails: the table of a supported backend other than the native one has
  no entry for the CCPM operations.  On \<open>jira\<close> the lookup of \<open>analyzeCriticalChain\<close> is
  \<^verbatim>\<open>undefined\<close>.
\<close>

theorem getEndpoints_jira_lacks_ccpm:
  "lookup (getEndpoints ''jira'') ''analyzeCriticalChain'' = Undefined"
  by code_simp

text \<open>
  C1, amended: for every supported backend identifier the table defines all thirteen
  task, project and system operations; the ten CCPM operations are defined for the native
  backend \<open>laracollab\<close> and for no other supported backend.
\<close>

theorem getEndpoints_coverage:
  "\<forall>sys \<in> set getSupportedSystems.
     (\<forall>op \<in> set core_operations. lookup (getEndpoints sys) op \<noteq> Undefined) \<and>
     (\<forall>op \<in> set ccpm_operations. (lookup (getEndpoints sys) op \<noteq> Undefined) = (sys = ''laracollab''))"
  by code_simp

theorem getEndpoints_coverage_witness:
  "''asana'' \<in> set getSupportedSystems \<and> ''startTask'' \<in> set core_operations
   \<and> ''enableCCPM'' \<in> set ccpm_operations
   \<and> lookup (getEndpoints ''asana'') ''startTask'' \<noteq> Undefined
   \<and> lookup (getEndpoints ''asana'') ''enableCCPM'' = Undefined"
  using getEndpoints_coverage
  by (simp add: getSupportedSystems_def core_operations_def ccpm_operations_def)

text \<open>
  What the missing entry does to a call: the method catches the \<^verbatim>\<open>TypeError\<close> and
  returns the normalized error, and nothing is sent.
\<close>

lemma analyzeCriticalChain_on_jira:
  "analyzeCriticalChain (sample_runtime server_down) (Num 7) (sample_api ''jira'')
   = (Inr (Obj [(''success'', Bool False),
                (''message'', Str ''endpoints.analyzeCriticalChain is not a function''),
                (''status'', Undefined), (''data'', Null)]), sample_api ''jira'')"
  by (simp add: analyzeCriticalChain_def io_try_def io_bind_def io_lift_def io_return_def call_def
       getEndpoints_def jira_endpoints_def lookup_def handleError_def sample_runtime_def
       sample_api_def js_or_def Let_def)


subsection \<open>Profiles for unknown identifiers\<close>



subsection \<open>Rotating the token\<close>

text \<open>
  C5 asks that after \<^verbatim>\<open>setApiToken(t)\<close> every header of later requests is the profile's
  rule applied to \<open>t\<close>.  The code does not do that.  On the generic-custom profile
  \<^verbatim>\<open>setApiToken('rotated-token')\<close> stores the token and writes the new bearer value into
  the \<^verbatim>\<open>common\<close> group, and that is all: the \<^verbatim>\<open>X-API-Key\<close> header of the next request
  still carries \<open>secret-token\<close>, where the profile's rule gives \<open>rotated-token\<close>; and the
  \<^verbatim>\<open>Authorization\<close> entry the constructor passed in, which the library ranks above the
  \<^verbatim>\<open>common\<close> group, still carries the old bearer value too.
\<close>

theorem setApiToken_keeps_old_api_key:
  "\<exists>this'. setApiToken ''rotated-token'' (sample_api ''custom'') = (Inr (), this')
     \<and> apiToken this' = ''rotated-token''
     \<and> lookup (lookup (defaults_headers this') ''common'') ''Authorization'' = Str ''Bearer rotated-token''
     \<and> lookup (defaults_headers this') ''X-API-Key'' = Str ''secret-token''
     \<and> lookup (request_headers (defaults_headers this') ''get'') ''X-API-Key'' = Str ''secret-token''
     \<and> lookup (request_headers (defaults_headers this') ''get'') ''Authorization'' = Str ''Bearer secret-token''
     \<and> lookup (getDefaultHeaders ''custom'' ''rotated-token'') ''X-API-Key'' = Str ''rotated-token''"
  by (simp add: sample_api_def setApiToken_def getDefaultHeaders_def baseHeaders_def
        axios_default_headers_def entries_def lookup_def request_headers_def merge_entries_def
        header_groups_def Let_def)

text \<open>The sibling setter replaces the whole header set by the profile's.\<close>

lemma setSystemType_recomputes_headers:
  "defaults_headers (setSystemType sys this) = getDefaultHeaders sys (apiToken this)"
  by (simp add: setSystemType_def)

subsection \<open>Normalized errors\<close>


lemma io_try_handleError:
  "io_try m (\<lambda>error. io_return (handleError rt error)) this =
     (case m this of (Inl e, s) \<Rightarrow> (Inr (handleError rt e), s) | (Inr x, s) \<Rightarrow> (Inr x, s))"
  by (simp add: io_try_def io_return_def split: prod.splits sum.splits)

text \<open>
  Given the library's own error for a 401 answer, \<^verbatim>\<open>handleError\<close> does produce the
  status and the body's message.
\<close>

lemma handleError_on_library_error:
  "development rt = False \<Longrightarrow>
   handleError rt (AxiosError msg (Some \<lparr>resp_status = Num 401, resp_data = Obj [(''message'', Str ''Unauthenticated.'')]\<rparr>) cfg)
   = Obj [(''success'', Bool False), (''message'', Str ''Unauthenticated.''),
          (''status'', Num 401), (''data'', Null)]"
  by (simp add: handleError_def js_or_def lookup_def)

text \<open>
  C2 asks that a 401 answer comes back from an adapter method as the normalized error
  with \<^verbatim>\<open>status: 401\<close> and the body's message.  The code does not do that.  The response
  interceptor turns the library's error into a fresh \<^verbatim>\<open>Error\<close> that has a message and
  no response, so \<^verbatim>\<open>handleError\<close> finds no status: \<^verbatim>\<open>getTasks({})\<close> against a server that
  answers 401 with the body message \<open>Unauthenticated.\<close> returns \<^verbatim>\<open>status: undefined\<close> and
  the message with the interceptor's prefix.
\<close>

theorem getTasks_401_loses_status:
  "fst (getTasks (sample_runtime server_401) (Obj []) (sample_api ''laracollab''))
   = Inr (Obj [(''success'', Bool False), (''message'', Str ''PMS API Error: Unauthenticated.''),
               (''status'', Undefined), (''data'', Null)])"
  by (simp add: getTasks_def io_try_def io_bind_def io_lift_def io_return_def
       getEndpoints_def laracollab_endpoints_def lookup_def handleError_def sample_runtime_def
       sample_api_def js_or_def Let_def buildTaskParams_def default_arg_def err_bind_def get_prop_def
       URLSearchParams_def client_get_def client_request_def server_401_def)

text \<open>
  The same on every backend and for every method: an error the request client throws has
  lost the response, and \<^verbatim>\<open>handleError\<close> reports no status for it.
\<close>

lemma http_failure_status_undefined:
  "fst (client_request rt meth url body this) = Inl e \<Longrightarrow> lookup (handleError rt e) ''status'' = Undefined"
  by (auto simp: client_request_def handleError_def lookup_def Let_def split: http_result.splits)












subsection \<open>The connection test\<close>

lemma lookup_handleError_marker:
  "k \<notin> {''success'', ''message'', ''status'', ''data'', ''details''} \<Longrightarrow>
   lookup (handleError rt e) k = Undefined"
  by (simp add: handleError_def lookup_def Let_def)

lemma getSystemInfo_result:
  "getSystemInfo rt this =
     (case transport rt (systemInfo_request this) of
        HttpOk payload \<Rightarrow> (Inr payload, this\<lparr>sent := sent this @ [systemInfo_request this]\<rparr>)
      | HttpErr msg resp \<Rightarrow>
          (let message = js_or (case resp of None \<Rightarrow> Undefined
                                | Some r \<Rightarrow> lookup (resp_data r) ''message'') (Str msg)
           in (Inr (handleError rt (Error (''PMS API Error: '' @ to_string rt message))),
               this\<lparr>sent := sent this @ [systemInfo_request this], lastError := message\<rparr>)))"
  by (simp add: getSystemInfo_def io_try_handleError client_get_def client_request_def Let_def
        systemInfo_request_def split: http_result.splits)

text \<open>
  C7, as stated, fails: the system-info call succeeds with the payload \<^verbatim>\<open>{id: 0}\<close>, which
  contains the marker field \<open>id\<close>, and \<^verbatim>\<open>testConnection()\<close> returns false.
\<close>

theorem testConnection_id_zero:
  "fst (testConnection (sample_runtime (server_ok (Obj [(''id'', Num 0)]))) (sample_api ''laracollab''))
   = Inr False"
  by (simp add: testConnection_def io_try_def io_bind_def io_return_def getSystemInfo_result
        js_or_def sample_runtime_def server_ok_def lookup_def)

text \<open>
  C7, amended: \<^verbatim>\<open>testConnection()\<close> never throws; it returns true if and only if the
  system-info call succeeds with a truthy payload in which at least one of \<open>ai_version\<close>,
  \<open>version\<close>, \<open>id\<close> holds a truthy value; on every transport or backend error it returns
  false.
\<close>

theorem testConnection_truthy_marker:
  "fst (testConnection rt this) =
     Inr (case transport rt (systemInfo_request this) of
            HttpOk payload \<Rightarrow> truthy payload \<and>
               (truthy (lookup payload ''ai_version'') \<or> truthy (lookup payload ''version'')
                \<or> truthy (lookup payload ''id''))
          | HttpErr m r \<Rightarrow> False)"
  by (simp add: testConnection_def io_try_def io_bind_def io_return_def getSystemInfo_result
        lookup_handleError_marker js_or_def Let_def split: http_result.splits)

theorem testConnection_truthy_marker_witness:
  "fst (testConnection (sample_runtime (server_ok (Obj [(''version'', Str ''8.20.1'')]))) (sample_api ''jira''))
     = Inr True
   \<and> fst (testConnection (sample_runtime server_401) (sample_api ''jira'')) = Inr False"
  using testConnection_truthy_marker [of "sample_runtime (server_ok (Obj [(''version'', Str ''8.20.1'')]))" "sample_api ''jira''"]
        testConnection_truthy_marker [of "sample_runtime server_401" "sample_api ''jira''"]
  by (simp add: sample_runtime_def server_ok_def server_401_def lookup_def)


subsection \<open>Filter translation\<close>





text \<open>
  The native profile copies the three filter fields whether supplied or not, and the
  query string spells an absent one out: \<^verbatim>\<open>getTasks({})\<close> requests
  \<^verbatim>\<open>/api/ai/tasks?status=undefined&priority=undefined&project_id=undefined\<close>.
\<close>

lemma getTasks_native_empty_filter_url:
  "map req_url (sent (snd (getTasks (sample_runtime (server_ok (Arr []))) (Obj []) (sample_api ''laracollab''))))
   = [Str ''/api/ai/tasks?status=undefined&priority=undefined&project_id=undefined'']"
  by (simp add: getTasks_def io_try_def io_bind_def io_lift_def io_return_def
       getEndpoints_def laracollab_endpoints_def lookup_def handleError_def sample_runtime_def
       sample_api_def js_or_def Let_def buildTaskParams_def default_arg_def err_bind_def get_prop_def
       URLSearchParams_def client_get_def client_request_def server_ok_def form_safe_def)

subsection \<open>Handlers on an unconfigured plugin\<close>

text \<open>
  C4, as stated, fails: on a plugin that was never configured \<^verbatim>\<open>handleTasksCommand\<close>
  does not return a formatted message; it throws.
\<close>

theorem handleTasksCommand_unconfigured_throws:
  "handleTasksCommand (sample_runtime server_down) [] PMSPlugin_new
   = (Inl (Error ''PMS not configured. Please run `/pms-config` first.''), PMSPlugin_new)"
  by (simp add: handleTasksCommand_def io_bind_def io_get_def ensureConfigured_def PMSPlugin_new_def)

lemma guard_throws:
  assumes "api plugin = None \<or> \<not> isConfigured (config plugin)"
  shows "io_bind (io_get ensureConfigured) f plugin
         = (Inl (Error ''PMS not configured. Please run `/pms-config` first.''), plugin)"
  using assms by (auto simp: io_bind_def io_get_def ensureConfigured_def)

text \<open>
  C4, amended: when the adapter is not configured (no adapter object, or an empty base
  URL or token), each of the thirteen handlers that open with \<^verbatim>\<open>ensureConfigured\<close>, that
  is every handler but those of \<^verbatim>\<open>/pms-status\<close> and \<^verbatim>\<open>/pms-config\<close>, detects it before
  any network call: the plugin and its adapters are left as they were, nothing is sent,
  and the handler ends by throwing the error whose message
  \<^verbatim>\<open>PMS not configured. Please run `/pms-config` first.\<close> tells the user to reconfigure.
\<close>

theorem guarded_handlers_unconfigured:
  assumes "api plugin = None \<or> \<not> isConfigured (config plugin)"
  shows "\<forall>outcome \<in> {handleTasksCommand rt args plugin, handleProjectsCommand rt plugin,
            handleCreateTaskCommand rt args plugin, handleStartTaskCommand rt args plugin,
            handleCompleteTaskCommand rt args plugin, handleCCPMEnableCommand rt args plugin,
            handleCCPMAnalyzeCommand rt args plugin, handleCCPMReportCommand rt args plugin,
            handleCCPMResourcesCommand rt args plugin, handleCCPMBuffersCommand rt args plugin,
            handleCCPMRecalculateCommand rt args plugin, handleCCPMDashboardCommand rt plugin,
            handleCCPMUpdateBufferCommand rt args plugin}.
          outcome = (Inl (Error ''PMS not configured. Please run `/pms-config` first.''), plugin)"
  unfolding handleTasksCommand_def handleProjectsCommand_def handleCreateTaskCommand_def
    handleStartTaskCommand_def handleCompleteTaskCommand_def handleCCPMEnableCommand_def
    handleCCPMAnalyzeCommand_def handleCCPMReportCommand_def handleCCPMResourcesCommand_def
    handleCCPMBuffersCommand_def handleCCPMRecalculateCommand_def handleCCPMDashboardCommand_def
    handleCCPMUpdateBufferCommand_def
  by (simp add: guard_throws [OF assms])

theorem guarded_handlers_unconfigured_witness:
  "(api PMSPlugin_new = None \<or> \<not> isConfigured (config PMSPlugin_new))
   \<and> handleCCPMReportCommand (sample_runtime server_down) [''7''] PMSPlugin_new
       = (Inl (Error ''PMS not configured. Please run `/pms-config` first.''), PMSPlugin_new)"
proof -
  have h: "api PMSPlugin_new = None \<or> \<not> isConfigured (config PMSPlugin_new)"
    by (simp add: PMSPlugin_new_def)
  from guarded_handlers_unconfigured [OF h, of "sample_runtime server_down" "[''7'']"] h
  show ?thesis by simp
qed

subsection \<open>The task-buffer command\<close>

lemma CriticalChainCommands_lacks_methods:
  "''updateTaskBuffer'' \<notin> set CriticalChainCommands_methods
   \<and> ''getCCPMDashboard'' \<notin> set CriticalChainCommands_methods"
  by (simp add: CriticalChainCommands_methods_def)

lemma sample_plugin_eq:
  "sample_plugin =
     \<lparr>config = sample_config,
      api = Some (sample_api ''laracollab''\<lparr>timeout := 30, defaults_timeout := 30\<rparr>),
      taskCommands = Some (sample_api ''laracollab''\<lparr>timeout := 30, defaults_timeout := 30\<rparr>),
      projectCommands = Some (sample_api ''laracollab''\<lparr>timeout := 30, defaults_timeout := 30\<rparr>),
      criticalChainCommands = Some (sample_api ''laracollab''\<lparr>timeout := 30, defaults_timeout := 30\<rparr>)\<rparr>"
  by (simp add: sample_plugin_def initConfig_def sample_config_def isConfigured_def PMSAPI_new_def
       PMSPlugin_new_def sample_api_def strip_trailing_slash_def Let_def)

text \<open>The arguments \<^verbatim>\<open>456 80%\<close> are read as task 456 and percentage 80.\<close>

lemma update_buffer_parsed_80_percent:
  "parseBufferUpdateArgs (sample_runtime server_down) [''456'', ''80%''] = (Num 456, Num 80)"
  by (simp add: parseBufferUpdateArgs_def parseBufferUpdateArgs_arg_def sample_runtime_def
        read_digits_def all_digits_def is_digit_def digits_value_def)

text \<open>
  C9 asks that a parsed percentage reaches the native task-buffer payload with
  \<open>ccpm_status\<close> set by the thresholds, 80 giving \<open>buffer_consumed\<close>.  The code does not
  do that.  On a configured native plugin \<^verbatim>\<open>/ccpm-update-buffer 456 80%\<close> parses the
  percentage 80 and prepares the buffer data, then calls
  \<^verbatim>\<open>this.criticalChainCommands.updateTaskBuffer\<close>, which \<^verbatim>\<open>CriticalChainCommands\<close> does not
  define: the \<^verbatim>\<open>TypeError\<close> is caught, the handler returns error text, the adapter's
  \<^verbatim>\<open>updateTaskBuffer\<close> is never reached, no payload is built and nothing is sent.
\<close>

theorem update_buffer_command_80_percent:
  "handleCCPMUpdateBufferCommand (sample_runtime server_down) [''456'', ''80%''] sample_plugin
   = (Inr (Str (formatError (sample_runtime server_down)
        (Str ''Error updating task buffer: this.criticalChainCommands.updateTaskBuffer is not a function'')
        Undefined)), sample_plugin)"
  apply (simp add: sample_plugin_eq)
  apply (simp add: handleCCPMUpdateBufferCommand_def io_bind_def io_get_def io_try_def io_return_def
        on_criticalChainCommands_undefined_def Let_def ensureConfigured_def isConfigured_def
        sample_config_def parseBufferUpdateArgs_def parseBufferUpdateArgs_arg_def sample_runtime_def
        read_digits_def all_digits_def is_digit_def digits_value_def)
  done

theorem update_buffer_command_80_percent_witness:
  "ensureConfigured sample_plugin = Inr True
   \<and> parseBufferUpdateArgs (sample_runtime server_down) [''456'', ''80%''] = (Num 456, Num 80)
   \<and> truthy (Num 456) \<and> truthy (Num 80)
   \<and> snd (handleCCPMUpdateBufferCommand (sample_runtime server_down) [''456'', ''80%''] sample_plugin)
       = sample_plugin
   \<and> (\<exists>text. fst (handleCCPMUpdateBufferCommand (sample_runtime server_down) [''456'', ''80%''] sample_plugin)
                = Inr (Str text))"
proof -
  have c: "ensureConfigured sample_plugin = Inr True"
    by (simp add: sample_plugin_eq ensureConfigured_def isConfigured_def sample_config_def)
  from update_buffer_command_80_percent c update_buffer_parsed_80_percent
  show ?thesis by simp
qed

text \<open>
  So it is for every argument list and every plugin: the command leaves the plugin and
  its adapters as they were, and what it returns is error text (or nothing, on the dead
  branch after the guard).  The arguments \<^verbatim>\<open>456 80\<close> do not even give a percentage:
  both are read as task ids.
\<close>

lemma update_buffer_command_sends_nothing:
  "snd (handleCCPMUpdateBufferCommand rt args plugin) = plugin"
  by (auto simp: handleCCPMUpdateBufferCommand_def io_bind_def io_get_def io_try_def io_return_def
        on_criticalChainCommands_undefined_def Let_def split: sum.splits option.splits)

lemma update_buffer_command_returns_text:
  "fst (handleCCPMUpdateBufferCommand rt args plugin) = Inr v \<Longrightarrow>
     v = Undefined \<or> (\<exists>message. v = Str (formatError rt (Str message) Undefined))"
  by (auto simp: handleCCPMUpdateBufferCommand_def io_bind_def io_get_def io_try_def io_return_def
        on_criticalChainCommands_undefined_def Let_def ensureConfigured_def
        split: sum.splits option.splits if_splits)

lemma update_buffer_command_plain_80:
  "fst (handleCCPMUpdateBufferCommand (sample_runtime server_down) [''456'', ''80''] sample_plugin)
   = Inr (Str (formatError (sample_runtime server_down)
        (Str ''Please provide task ID and buffer percentage: /ccpm-update-buffer <task-id> <percentage>'')
        Undefined))"
  apply (simp add: sample_plugin_eq)
  apply (simp add: handleCCPMUpdateBufferCommand_def io_bind_def io_get_def io_try_def io_return_def
        on_criticalChainCommands_undefined_def Let_def ensureConfigured_def isConfigured_def
        sample_config_def parseBufferUpdateArgs_def parseBufferUpdateArgs_arg_def sample_runtime_def
        read_digits_def all_digits_def is_digit_def digits_value_def)
  done

text \<open>
  The two ends the missing method would have joined are each written for the property:
  the buffer data the handler prepares carries the thresholds, and the adapter's native
  payload keeps both fields, provided \<^verbatim>\<open>parseFloat\<close> reads the number back from its own
  printed form.
\<close>

lemma bufferData_thresholds:
  assumes "parseFloat rt (number_to_string rt p) = Num p"
  shows "\<exists>payload. buildTaskBufferPayload ''laracollab'' (bufferData_of rt (Num p)) = Inr payload
     \<and> lookup payload ''buffer_consumption_percentage'' = Num p
     \<and> lookup payload ''ccpm_status'' =
           Str (if p > 75 then ''buffer_consumed'' else if p > 50 then ''in_progress'' else ''not_started'')"
  using assms
  by (auto simp: buildTaskBufferPayload_def bufferData_of_def err_bind_def get_prop_def lookup_def js_gt_def)

subsection \<open>The status command\<close>

lemma const_appends_result:
  "const_appends message pieces =
     (if pieces = [] then Inr message else Inl (TypeError ''Assignment to constant variable.''))"
  by (induction pieces rule: rev_induct)
     (simp_all add: const_appends_def err_bind_def const_append_def)

lemma const_appends_throws:
  "pieces \<noteq> [] \<Longrightarrow> const_appends message pieces = Inl (TypeError ''Assignment to constant variable.'')"
  by (simp add: const_appends_result)

text \<open>
  C10: when the adapter is not configured (\<^verbatim>\<open>this.api\<close> is \<^verbatim>\<open>null\<close>),
  \<^verbatim>\<open>handleStatusCommand\<close> throws the \<^verbatim>\<open>TypeError\<close> of an assignment to a constant
  instead of returning the status text; its connection-error branch throws the same
  error for whatever it caught; so whenever the command returns a text, that text is
  the system-information view and neither of the two messages.
\<close>

theorem handleStatusCommand_const_fault:
  "(api plugin = None \<longrightarrow>
      handleStatusCommand rt plugin = (Inl (TypeError ''Assignment to constant variable.''), plugin))
   \<and> status_connection_error rt e = Inl (TypeError ''Assignment to constant variable.'')
   \<and> (\<forall>v. fst (handleStatusCommand rt plugin) = Inr v \<longrightarrow> (\<exists>info. v = Str (formatSystemInfo rt info)))"
proof (intro conjI impI allI)
  assume "api plugin = None"
  then show "handleStatusCommand rt plugin = (Inl (TypeError ''Assignment to constant variable.''), plugin)"
    by (simp add: handleStatusCommand_def status_not_configured_def const_appends_throws err_bind_def)
next
  show ce: "status_connection_error rt e = Inl (TypeError ''Assignment to constant variable.'')" for e
    by (simp add: status_connection_error_def const_appends_throws err_bind_def)
  fix v assume a: "fst (handleStatusCommand rt plugin) = Inr v"
  show "\<exists>info. v = Str (formatSystemInfo rt info)"
  proof (cases "api plugin")
    case None
    with a show ?thesis
      by (simp add: handleStatusCommand_def status_not_configured_def const_appends_throws err_bind_def)
  next
    case (Some obj)
    with a show ?thesis
      by (auto simp: handleStatusCommand_def io_try_def io_bind_def io_return_def io_lift_def
            on_api_def ce split: prod.splits sum.splits)
  qed
qed

theorem handleStatusCommand_const_fault_witness:
  "api PMSPlugin_new = None
   \<and> handleStatusCommand (sample_runtime server_down) PMSPlugin_new
       = (Inl (TypeError ''Assignment to constant variable.''), PMSPlugin_new)"
  using handleStatusCommand_const_fault [of PMSPlugin_new "sample_runtime server_down"]
  by (simp add: PMSPlugin_new_def)

end
